theory Spec2Isabelle
  imports Complex_Main "HOL-Library.Word" "HOL-Library.Sublist"
begin

unbundle bit_operations_syntax

section \<open>The density-matrix state class of qiskit-aer\<close>

text \<open>
  This theory embeds \<^verbatim>\<open>src/simulators/density_matrix/densitymatrix_state.hpp\<close>: the
  class \<^verbatim>\<open>AER::DensityMatrix::State\<close>, which routes typed operations onto a
  vectorized density-matrix buffer \<^verbatim>\<open>qreg_\<close>.

  The buffer class (\<^verbatim>\<open>densitymatrix.hpp\<close>), the chunk helpers
  (\<^verbatim>\<open>chunk_utils.hpp\<close>), the utilities (\<^verbatim>\<open>utils.hpp\<close>), the matrix tables
  (\<^verbatim>\<open>Linalg::VMatrix\<close>), the classical register, the result container and the random
  number engine are included by the file but are not part of it. They enter the model as
  parameters: records of functions over abstract types \<open>'q\<close> (the buffer), \<open>'k\<close>
  (the classical register), \<open>'r\<close> (the random number engine) and \<open>'s\<close> (the
  experiment result). Every theorem below holds for all such parameters. Their members
  are taken to return normally: the exceptions of the model are those the file throws.
  Where a property of the file depends on what a member that is not in the file does, the
  member is a definition modelled from the spec, and its text says so.
\<close>

subsection \<open>Machine types\<close>

text \<open>
  \<^verbatim>\<open>uint_t\<close> is \<^verbatim>\<open>uint64_t\<close>: arithmetic wraps modulo \<open>2^64\<close>, \<^verbatim>\<open>x << n\<close> is
  \<open>push_bit n x\<close> and \<^verbatim>\<open>x >> n\<close> is \<open>drop_bit n x\<close>. (C++ leaves a shift by 64 or
  more undefined; \<open>push_bit\<close> and \<open>drop_bit\<close> then give \<open>0\<close>.)
  The length of a \<^verbatim>\<open>std::vector\<close> is a \<open>nat\<close>; where the code compares it with a
  \<^verbatim>\<open>uint_t\<close> the word is read by \<open>unat\<close>.
\<close>

type_synonym uint_t = "64 word"
type_synonym reg_t = "uint_t list"

text \<open>
  \<^verbatim>\<open>double\<close>: the IEEE-754 values as far as the code can tell them apart. A finite value
  is carried as the real number it stands for (rounding, overflow and underflow are not
  modelled, and no theorem below depends on the digits of a finite result). The two zeros,
  the infinities and NaN are values of their own, because division and square root
  produce them instead of failing: \<open>Finite 0\<close> is \<^verbatim>\<open>+0.0\<close> and \<open>NegZero\<close> is
  \<^verbatim>\<open>-0.0\<close>.
\<close>

datatype double = Finite real | NegZero | PosInf | NegInf | NaN

fun is_neg :: "double \<Rightarrow> bool" where
  "is_neg (Finite x) = (x < 0)"
| "is_neg NegZero = True"
| "is_neg PosInf = False"
| "is_neg NegInf = True"
| "is_neg NaN = False"

fun magnitude :: "double \<Rightarrow> real" where
  "magnitude (Finite x) = x"
| "magnitude _ = 0"

definition is_zero :: "double \<Rightarrow> bool" where
  "is_zero d = (d = Finite 0 \<or> d = NegZero)"

definition is_inf :: "double \<Rightarrow> bool" where
  "is_inf d = (d = PosInf \<or> d = NegInf)"

definition signed_zero :: "bool \<Rightarrow> double" where
  "signed_zero neg = (if neg then NegZero else Finite 0)"

definition signed_inf :: "bool \<Rightarrow> double" where
  "signed_inf neg = (if neg then NegInf else PosInf)"

fun d_sqrt :: "double \<Rightarrow> double" where
  \<comment> \<open>\<^verbatim>\<open>std::sqrt\<close>: the root of \<^verbatim>\<open>-0.0\<close> is \<^verbatim>\<open>-0.0\<close>\<close>
  "d_sqrt (Finite x) = (if x < 0 then NaN else Finite (sqrt x))"
| "d_sqrt NegZero = NegZero"
| "d_sqrt PosInf = PosInf"
| "d_sqrt NegInf = NaN"
| "d_sqrt NaN = NaN"

fun d_neg :: "double \<Rightarrow> double" where
  "d_neg (Finite x) = (if x = 0 then NegZero else Finite (- x))"
| "d_neg NegZero = Finite 0"
| "d_neg PosInf = NegInf"
| "d_neg NegInf = PosInf"
| "d_neg NaN = NaN"

definition d_div :: "double \<Rightarrow> double \<Rightarrow> double" where
  \<comment> \<open>\<^verbatim>\<open>a / b\<close>: the sign of a zero or infinite quotient is the product of the signs\<close>
  "d_div a b =
     (if a = NaN \<or> b = NaN then NaN
      else if is_inf a \<and> is_inf b then NaN
      else if is_zero a \<and> is_zero b then NaN
      else if is_inf a \<or> is_zero b then signed_inf (is_neg a \<noteq> is_neg b)
      else if is_zero a \<or> is_inf b then signed_zero (is_neg a \<noteq> is_neg b)
      else Finite (magnitude a / magnitude b))"

definition d_add :: "double \<Rightarrow> double \<Rightarrow> double" where
  "d_add a b =
     (if a = NaN \<or> b = NaN then NaN
      else if is_inf a \<and> is_inf b then (if a = b then a else NaN)
      else if is_inf a then a
      else if is_inf b then b
      else if a = NegZero \<and> b = NegZero then NegZero
      else Finite (magnitude a + magnitude b))"

definition d_less :: "double \<Rightarrow> double \<Rightarrow> bool" where
  \<comment> \<open>\<^verbatim>\<open>a < b\<close>: false when either is NaN; the two zeros are equal\<close>
  "d_less a b =
     (if a = NaN \<or> b = NaN then False
      else if a = NegInf then b \<noteq> NegInf
      else if b = PosInf then a \<noteq> PosInf
      else if a = PosInf \<or> b = NegInf then False
      else magnitude a < magnitude b)"

text \<open>\<^verbatim>\<open>complex_t\<close> is \<^verbatim>\<open>std::complex<double>\<close>: a real and an imaginary part.\<close>

type_synonym complex_t = "double \<times> double"
type_synonym cvector_t = "complex_t list"
type_synonym rvector_t = "double list"

definition of_double :: "double \<Rightarrow> complex_t" where
  \<comment> \<open>the conversion \<^verbatim>\<open>complex_t(d)\<close>, as in \<^verbatim>\<open>mdiag[i] = 1. / std::sqrt(p)\<close>\<close>
  "of_double d = (d, Finite 0)"

definition c_zero :: complex_t where
  "c_zero = of_double (Finite 0)"

definition c_one :: complex_t where
  "c_one = of_double (Finite 1)"

definition c_add :: "complex_t \<Rightarrow> complex_t \<Rightarrow> complex_t" where
  "c_add a b = (d_add (fst a) (fst b), d_add (snd a) (snd b))"

definition c_conj :: "complex_t \<Rightarrow> complex_t" where
  "c_conj a = (fst a, d_neg (snd a))"

text \<open>
  \<^verbatim>\<open>cmatrix_t\<close> is the class \<^verbatim>\<open>matrix\<close> over \<^verbatim>\<open>complex_t\<close>: its dimensions and its entries in one
  vector, which \<^verbatim>\<open>operator[]\<close> indexes.
\<close>

record cmatrix_t =
  GetRows :: nat
  GetColumns :: nat
  entries :: cvector_t

subsection \<open>Exceptions and unchecked accesses\<close>

text \<open>
  The only exception the file throws is \<^verbatim>\<open>std::invalid_argument\<close>, with a message.
  \<^verbatim>\<open>operator[]\<close> of a vector outside its bounds is undefined in C++: the model stops
  there with \<open>unchecked_access\<close> instead of reading or writing an unspecified value.
\<close>

datatype error = invalid_argument string | unchecked_access

text \<open>
  A method runs on the objects it can reach and either returns a value or throws; in both
  cases the objects are left in some state.
\<close>

type_synonym ('a, 'w) action = "'w \<Rightarrow> (error + 'a) \<times> 'w"

definition returns :: "'a \<Rightarrow> ('a, 'w) action" where
  "returns a w = (Inr a, w)"

definition throw :: "error \<Rightarrow> ('a, 'w) action" where
  "throw e w = (Inl e, w)"

definition bind :: "('a, 'w) action \<Rightarrow> ('a \<Rightarrow> ('b, 'w) action) \<Rightarrow> ('b, 'w) action" where
  "bind m f w = (case m w of (Inl e, w') \<Rightarrow> (Inl e, w') | (Inr a, w') \<Rightarrow> f a w')"

definition modify :: "('w \<Rightarrow> 'w) \<Rightarrow> (unit, 'w) action" where
  "modify f w = (Inr (), f w)"

definition requires :: "bool \<Rightarrow> ('a, 'w) action \<Rightarrow> ('a, 'w) action" where
  \<comment> \<open>the indices the statement reads lie inside their vectors\<close>
  "requires b m = (if b then m else throw unchecked_access)"

subsection \<open>Operations\<close>

text \<open>
  \<^verbatim>\<open>Operations::OpType\<close>: the members this file names (\<^verbatim>\<open>StateOpSet\<close> and the cases
  of \<^verbatim>\<open>apply_op\<close>). The enumeration is declared in \<^verbatim>\<open>framework/operations.hpp\<close>,
  which is not among the sources; \<open>OpType_other\<close> stands for its other members.
\<close>

datatype OpType =
    OpType_gate | OpType_measure | OpType_reset | OpType_barrier | OpType_bfunc
  | OpType_qerror_loc | OpType_roerror | OpType_matrix | OpType_diagonal_matrix
  | OpType_kraus | OpType_superop | OpType_set_statevec | OpType_set_densmat
  | OpType_save_expval | OpType_save_expval_var | OpType_save_densmat
  | OpType_save_probs | OpType_save_probs_ket | OpType_save_amps_sq
  | OpType_save_state | OpType_jump | OpType_mark | OpType_other nat

text \<open>
  \<^verbatim>\<open>Operations::DataSubType\<close>: the four members \<^verbatim>\<open>apply_save_state\<close> names, and
  \<open>DataSubType_other\<close> for the rest.
\<close>

datatype DataSubType =
    DataSubType_single | DataSubType_c_single | DataSubType_average
  | DataSubType_c_average | DataSubType_other nat

text \<open>\<^verbatim>\<open>Operations::Op\<close>: the members the file reads.\<close>

record Op =
  op_type :: OpType
  op_name :: string
  op_qubits :: reg_t
  op_memory :: reg_t
  op_registers :: reg_t
  op_mats :: "cmatrix_t list"
  op_params :: cvector_t
  op_string_params :: "string list"
  op_int_params :: "uint_t list"
  op_save_type :: DataSubType

text \<open>The enumeration \<^verbatim>\<open>Gates\<close> and the table \<^verbatim>\<open>gateset_\<close>, in the file's order.\<close>

datatype Gates =
    Gates_u1 | Gates_u2 | Gates_u3 | Gates_r | Gates_rx | Gates_ry | Gates_rz
  | Gates_id | Gates_x | Gates_y | Gates_z | Gates_h | Gates_s | Gates_sdg
  | Gates_sx | Gates_sxdg | Gates_t | Gates_tdg | Gates_cx | Gates_cy | Gates_cz
  | Gates_swap | Gates_rxx | Gates_ryy | Gates_rzz | Gates_rzx | Gates_ccx
  | Gates_cp | Gates_pauli | Gates_ecr

definition gateset :: "(string \<times> Gates) list" where
  "gateset =
    [(''delay'', Gates_id), (''id'', Gates_id), (''x'', Gates_x), (''y'', Gates_y),
     (''z'', Gates_z), (''s'', Gates_s), (''sdg'', Gates_sdg), (''h'', Gates_h),
     (''t'', Gates_t), (''tdg'', Gates_tdg), (''x90'', Gates_sx), (''sx'', Gates_sx),
     (''sxdg'', Gates_sxdg), (''r'', Gates_r), (''rx'', Gates_rx), (''ry'', Gates_ry),
     (''rz'', Gates_rz),
     (''p'', Gates_u1), (''u1'', Gates_u1), (''u2'', Gates_u2), (''u3'', Gates_u3),
     (''u'', Gates_u3), (''U'', Gates_u3),
     (''CX'', Gates_cx), (''cx'', Gates_cx), (''cy'', Gates_cy), (''cz'', Gates_cz),
     (''cp'', Gates_cp), (''cu1'', Gates_cp), (''swap'', Gates_swap),
     (''rxx'', Gates_rxx), (''ryy'', Gates_ryy), (''rzz'', Gates_rzz),
     (''rzx'', Gates_rzx), (''ecr'', Gates_ecr),
     (''ccx'', Gates_ccx),
     (''pauli'', Gates_pauli)]"

subsection \<open>The collaborators, as parameters\<close>

text \<open>
  The methods of the buffer \<^verbatim>\<open>qreg_\<close> that change it and return nothing, each with
  the arguments the file passes.
\<close>

datatype qv_call =
    QV_apply_cnot uint_t uint_t
  | QV_apply_cy uint_t uint_t
  | QV_apply_cphase uint_t uint_t complex_t
  | QV_apply_x uint_t
  | QV_apply_y uint_t
  | QV_apply_swap uint_t uint_t
  | QV_apply_toffoli uint_t uint_t uint_t
  | QV_apply_unitary_matrix reg_t cvector_t
  | QV_apply_mcx reg_t
  | QV_apply_mcy reg_t
  | QV_apply_mcphase reg_t complex_t
  | QV_apply_diagonal_unitary_matrix reg_t cvector_t
  | QV_apply_diagonal_matrix reg_t cvector_t
  | QV_apply_pauli reg_t string complex_t
  | QV_apply_superop_matrix reg_t cvector_t
  | QV_apply_reset reg_t
  | QV_initialize_from_vector cvector_t
  | QV_initialize_from_matrix cmatrix_t

text \<open>
  The buffer: \<open>qv_apply\<close> runs one of the calls above; \<open>qv_move_to_matrix\<close> returns the
  matrix and the buffer it leaves behind; the other members are accessors and computed
  values, which read the buffer.
\<close>

record 'q qubitvector =
  qv_apply :: "qv_call \<Rightarrow> 'q \<Rightarrow> 'q"
  qv_move_to_matrix :: "'q \<Rightarrow> cmatrix_t \<times> 'q"
  qv_copy_to_matrix :: "'q \<Rightarrow> cmatrix_t"
  qv_num_qubits :: "'q \<Rightarrow> uint_t"
  qv_chunk_index :: "'q \<Rightarrow> uint_t"
  qv_support_global_indexing :: "'q \<Rightarrow> bool"
  qv_trace :: "'q \<Rightarrow> complex_t"
  qv_vector :: "'q \<Rightarrow> cvector_t"
  qv_probabilities :: "'q \<Rightarrow> reg_t \<Rightarrow> rvector_t"
  qv_probability :: "'q \<Rightarrow> uint_t \<Rightarrow> double"
  qv_expval_pauli :: "'q \<Rightarrow> reg_t \<Rightarrow> string \<Rightarrow> double"

text \<open>
  \<^verbatim>\<open>Utils\<close>, \<^verbatim>\<open>Linalg::VMatrix\<close>, \<^verbatim>\<open>Chunk::block_diagonal_matrix\<close> (which rewrites
  the qubits and the diagonal it is given) and the complex functions of the C++ library
  that the gates use.
\<close>

record utils =
  tensor_product :: "cvector_t \<Rightarrow> cvector_t \<Rightarrow> cvector_t"
  conjugate :: "cvector_t \<Rightarrow> cvector_t"
  vectorize_matrix :: "cmatrix_t \<Rightarrow> cvector_t"
  kraus_superop :: "cmatrix_t list \<Rightarrow> cmatrix_t"
  vec2ket :: "rvector_t \<Rightarrow> double \<Rightarrow> nat \<Rightarrow> (string \<times> double) list"
  int2reg :: "uint_t \<Rightarrow> uint_t \<Rightarrow> uint_t \<Rightarrow> reg_t"
  block_diagonal_matrix :: "uint_t \<Rightarrow> uint_t \<Rightarrow> reg_t \<Rightarrow> cvector_t \<Rightarrow> reg_t \<times> cvector_t"
  gate_name_in_chunk :: "Op \<Rightarrow> reg_t \<Rightarrow> string"
  c_exp :: "complex_t \<Rightarrow> complex_t"
  c_mul :: "complex_t \<Rightarrow> complex_t \<Rightarrow> complex_t"

record vmatrix =
  VMatrix_SX :: cvector_t
  VMatrix_SXDG :: cvector_t
  VMatrix_ECR :: cvector_t
  VMatrix_r :: "complex_t \<Rightarrow> complex_t \<Rightarrow> cvector_t"
  VMatrix_rx :: "complex_t \<Rightarrow> cvector_t"
  VMatrix_ry :: "complex_t \<Rightarrow> cvector_t"
  VMatrix_rz_diag :: "complex_t \<Rightarrow> cvector_t"
  VMatrix_rxx :: "complex_t \<Rightarrow> cvector_t"
  VMatrix_ryy :: "complex_t \<Rightarrow> cvector_t"
  VMatrix_rzz_diag :: "complex_t \<Rightarrow> cvector_t"
  VMatrix_rzx :: "complex_t \<Rightarrow> cvector_t"
  VMatrix_u3 :: "double \<Rightarrow> double \<Rightarrow> double \<Rightarrow> cvector_t"

text \<open>
  The classical register \<^verbatim>\<open>BaseState::creg()\<close>, the random number engine and the
  experiment result. What \<^verbatim>\<open>save_data_average\<close> is given is a matrix, a real vector or
  the ket form of a vector. \<^verbatim>\<open>BaseState::apply_save_expval\<close> calls back the virtual
  \<^verbatim>\<open>expval_pauli\<close>.
\<close>

datatype save_data =
    Matrix_data cmatrix_t
  | Vector_data rvector_t
  | Ket_data "(string \<times> double) list"

record ('k, 'r, 's) classical =
  check_conditional :: "'k \<Rightarrow> Op \<Rightarrow> bool"
  apply_bfunc :: "Op \<Rightarrow> 'k \<Rightarrow> 'k"
  apply_roerror :: "Op \<Rightarrow> 'r \<Rightarrow> 'k \<Rightarrow> 'k \<times> 'r"
  store_measure :: "reg_t \<Rightarrow> reg_t \<Rightarrow> reg_t \<Rightarrow> 'k \<Rightarrow> 'k"
  rand_int :: "rvector_t \<Rightarrow> 'r \<Rightarrow> uint_t \<times> 'r"
  rand :: "double \<Rightarrow> double \<Rightarrow> 'r \<Rightarrow> double \<times> 'r"
  save_data_average :: "'k \<Rightarrow> string \<Rightarrow> save_data \<Rightarrow> OpType \<Rightarrow> DataSubType \<Rightarrow> 's \<Rightarrow> 's"
  base_apply_save_expval :: "(reg_t \<Rightarrow> string \<Rightarrow> double) \<Rightarrow> Op \<Rightarrow> 'k \<Rightarrow> 's \<Rightarrow> 's"

record ('q, 'k, 'r, 's) env =
  QV :: "'q qubitvector"
  UT :: utils
  VM :: vmatrix
  CL :: "('k, 'r, 's) classical"

text \<open>
  What a call can reach: the members \<^verbatim>\<open>qreg_\<close>, \<^verbatim>\<open>creg()\<close>,
  \<^verbatim>\<open>num_global_qubits_\<close> and \<^verbatim>\<open>json_chop_threshold_\<close> of the state, and the result
  and the random number engine that \<^verbatim>\<open>apply_op\<close> is handed by reference.
\<close>

record ('q, 'k, 'r, 's) world =
  qreg :: 'q
  creg :: 'k
  num_global_qubits :: uint_t
  json_chop_threshold :: double
  result :: 's
  rng :: 'r

subsection \<open>The doubled index space\<close>

text \<open>
  \<open>deposit ps x\<close> is the number that has the binary digit \<open>j\<close> of \<open>x\<close> at the
  position \<open>ps ! j\<close>, for every \<open>j\<close> below the length of \<open>ps\<close>, and zeros elsewhere.
\<close>

fun deposit :: "nat list \<Rightarrow> nat \<Rightarrow> nat" where
  "deposit [] x = 0"
| "deposit (p # ps) x = (if odd x then 2 ^ p else 0) + deposit ps (x div 2)"

text \<open>
  Modelled from the spec: the member \<^verbatim>\<open>superop_qubits\<close> of the buffer, which is defined
  in \<^verbatim>\<open>densitymatrix.hpp\<close> and is not among the sources. The spec (9, vectorized
  representation) has the density matrix of \<open>n\<close> qubits handled as a state vector of
  \<open>2n\<close> qubits, \<open>n\<close> on the ket side and \<open>n\<close> on the bra side: qubit \<open>q\<close> of the
  matrix is qubit \<open>q\<close> of the vector on the ket side and qubit \<open>q + n\<close> on the bra
  side. The member lists the ket-side qubits, then the bra-side ones.
\<close>

definition superop_qubits :: "uint_t \<Rightarrow> reg_t \<Rightarrow> reg_t" where
  "superop_qubits num_qubits qubits = qubits @ map (\<lambda>q. q + num_qubits) qubits"

text \<open>
  Modelled from the spec: the function \<^verbatim>\<open>QV::indexes\<close>, which is defined in
  \<^verbatim>\<open>simulators/statevector/indexes.hpp\<close> and is not among the sources. The spec (4.5)
  has the positions in the buffer computed by an index-generating function over the
  complement of the given qubits. Entry \<open>i\<close> of \<^verbatim>\<open>indexes(qubits, qubits_sorted, k)\<close>
  is the index of 64 bits that has the digits of \<open>k\<close>, in order, at the positions that
  are not among \<open>qubits_sorted\<close>, and digit \<open>j\<close> of \<open>i\<close> at the position
  \<open>qubits[j]\<close>; there is one entry for each \<open>i\<close> below \<open>2\<close> to the number of qubits.
\<close>

definition indexes :: "reg_t \<Rightarrow> reg_t \<Rightarrow> uint_t \<Rightarrow> uint_t list" where
  "indexes qubits qubits_sorted k =
     map (\<lambda>i. word_of_nat
            (deposit (map unat qubits) i
             + deposit (filter (\<lambda>p. p \<notin> set (map unat qubits_sorted)) [0..<64]) (unat k)))
       [0..<2 ^ length qubits_sorted]"

subsection \<open>Calls on the buffer\<close>

definition on_qreg :: "('q, 'k, 'r, 's) env \<Rightarrow> qv_call \<Rightarrow> (unit, ('q, 'k, 'r, 's) world) action" where
  \<comment> \<open>\<^verbatim>\<open>BaseState::qreg_.call(...)\<close>\<close>
  "on_qreg E c = modify (\<lambda>w. w\<lparr>qreg := qv_apply (QV E) c (qreg w)\<rparr>)"

definition store :: "'a list \<Rightarrow> nat \<Rightarrow> 'a \<Rightarrow> 'a list option" where
  \<comment> \<open>\<^verbatim>\<open>xs[i] = v\<close>: nothing is returned when \<open>i\<close> is outside \<open>xs\<close>\<close>
  "store xs i v = (if i < length xs then Some (xs[i := v]) else None)"

definition quote :: string where
  \<comment> \<open>the character \<^verbatim>\<open>'\<close> of the messages\<close>
  "quote = [CHR 0x27]"

definition move_to_matrix :: "('q, 'k, 'r, 's) env \<Rightarrow> (cmatrix_t, ('q, 'k, 'r, 's) world) action" where
  "move_to_matrix E w =
     (let r = qv_move_to_matrix (QV E) (qreg w) in (Inr (fst r), w\<lparr>qreg := snd r\<rparr>))"

definition copy_to_matrix :: "('q, 'k, 'r, 's) env \<Rightarrow> (cmatrix_t, ('q, 'k, 'r, 's) world) action" where
  "copy_to_matrix E w = (Inr (qv_copy_to_matrix (QV E) (qreg w)), w)"

definition initialize_from_vector ::
  "('q, 'k, 'r, 's) env \<Rightarrow> cvector_t \<Rightarrow> (unit, ('q, 'k, 'r, 's) world) action" where
  "initialize_from_vector E vec =
     on_qreg E (QV_initialize_from_vector (tensor_product (UT E) (conjugate (UT E) vec) vec))"

subsection \<open>Diagonal matrices, phases, Pauli strings, matrices\<close>

text \<open>
  \<^verbatim>\<open>apply_diagonal_unitary_matrix\<close>. In the chunked branch \<open>qubits_row\<close> is the loop
  over \<open>qubits\<close> that moves each global qubit up by the number of global qubits, and
  \<open>qubits_chunk\<close> is the loop that writes \<open>qubits_in[i]\<close> at \<open>i\<close> and
  \<open>qubits_in[i] + num_qubits\<close> at \<open>i + qubits_in.size()\<close>.
\<close>

definition apply_diagonal_unitary_matrix ::
  "('q, 'k, 'r, 's) env \<Rightarrow> reg_t \<Rightarrow> cvector_t \<Rightarrow> (unit, ('q, 'k, 'r, 's) world) action" where
  "apply_diagonal_unitary_matrix E qubits diag w =
     (let nq = qv_num_qubits (QV E) (qreg w);
          chunk = qv_chunk_index (QV E) (qreg w)
      in
      if nq < num_global_qubits w \<and> \<not> qv_support_global_indexing (QV E) (qreg w) then
        (let blk_in = block_diagonal_matrix (UT E) chunk nq qubits diag;
             qubits_in = fst blk_in;
             diag_in = snd blk_in
         in
         if length qubits_in = length qubits then
           on_qreg E (QV_apply_diagonal_unitary_matrix qubits diag) w
         else
           (let qubits_row =
                  map (\<lambda>q. if nq \<le> q then q + num_global_qubits w - nq else q) qubits;
                diag_row = snd (block_diagonal_matrix (UT E) chunk nq qubits_row diag);
                qubits_chunk = qubits_in @ map (\<lambda>q. q + nq) qubits_in
            in on_qreg E
                 (QV_apply_diagonal_matrix qubits_chunk
                    (tensor_product (UT E) (conjugate (UT E) diag_row) diag_in)) w))
      else on_qreg E (QV_apply_diagonal_unitary_matrix qubits diag) w)"

definition apply_phase ::
  "('q, 'k, 'r, 's) env \<Rightarrow> uint_t \<Rightarrow> complex_t \<Rightarrow> (unit, ('q, 'k, 'r, 's) world) action" where
  "apply_phase E qubit phase = apply_diagonal_unitary_matrix E [qubit] [c_one, phase]"

definition apply_gate_u3 ::
  "('q, 'k, 'r, 's) env \<Rightarrow> uint_t \<Rightarrow> double \<Rightarrow> double \<Rightarrow> double
     \<Rightarrow> (unit, ('q, 'k, 'r, 's) world) action" where
  "apply_gate_u3 E qubit theta phi lambda =
     on_qreg E (QV_apply_unitary_matrix [qubit] (VMatrix_u3 (VM E) theta phi lambda))"

definition apply_pauli ::
  "('q, 'k, 'r, 's) env \<Rightarrow> reg_t \<Rightarrow> string \<Rightarrow> (unit, ('q, 'k, 'r, 's) world) action" where
  "apply_pauli E qubits pauli w =
     (let coeff = (if count_list pauli (CHR ''Y'') mod 2 \<noteq> 0
                   then of_double (Finite (- 1)) else of_double (Finite 1))
      in on_qreg E
           (QV_apply_pauli (superop_qubits (qv_num_qubits (QV E) (qreg w)) qubits)
              (pauli @ pauli) coeff) w)"

definition apply_matrix ::
  "('q, 'k, 'r, 's) env \<Rightarrow> reg_t \<Rightarrow> cmatrix_t \<Rightarrow> (unit, ('q, 'k, 'r, 's) world) action" where
  "apply_matrix E qubits mat =
     (if GetRows mat = 1
      then apply_diagonal_unitary_matrix E qubits (vectorize_matrix (UT E) mat)
      else on_qreg E (QV_apply_unitary_matrix qubits (vectorize_matrix (UT E) mat)))"

definition apply_kraus ::
  "('q, 'k, 'r, 's) env \<Rightarrow> reg_t \<Rightarrow> cmatrix_t list \<Rightarrow> (unit, ('q, 'k, 'r, 's) world) action" where
  "apply_kraus E qubits kmats =
     on_qreg E
       (QV_apply_superop_matrix qubits (vectorize_matrix (UT E) (kraus_superop (UT E) kmats)))"

subsection \<open>Reset and measurement\<close>

definition measure_probs ::
  "('q, 'k, 'r, 's) env \<Rightarrow> reg_t \<Rightarrow> ('q, 'k, 'r, 's) world \<Rightarrow> rvector_t" where
  "measure_probs E qubits w = qv_probabilities (QV E) (qreg w) qubits"

definition apply_reset ::
  "('q, 'k, 'r, 's) env \<Rightarrow> reg_t \<Rightarrow> (unit, ('q, 'k, 'r, 's) world) action" where
  "apply_reset E qubits = on_qreg E (QV_apply_reset qubits)"

definition sample_measure_with_prob ::
  "('q, 'k, 'r, 's) env \<Rightarrow> reg_t \<Rightarrow> (uint_t \<times> double, ('q, 'k, 'r, 's) world) action" where
  "sample_measure_with_prob E qubits w =
     (let probs = measure_probs E qubits w;
          drawn = rand_int (CL E) probs (rng w);
          outcome = fst drawn
      in requires (unat outcome < length probs)
           (returns (outcome, probs ! unat outcome)) (w\<lparr>rng := snd drawn\<rparr>))"

text \<open>
  The block of \<^verbatim>\<open>measure_reset_update\<close> that builds the vectorized permutation matrix:
  \<^verbatim>\<open>dim * dim\<close> zeros, a one at \<^verbatim>\<open>final_state * dim + meas_state\<close> and at
  \<^verbatim>\<open>meas_state * dim + final_state\<close>, and the loop over \<^verbatim>\<open>j < dim\<close>. All sizes and
  indices are \<^verbatim>\<open>size_t\<close> arithmetic; \<open>dimn\<close> is the source's \<^verbatim>\<open>dim\<close>.
\<close>

definition measure_reset_update_perm :: "uint_t \<Rightarrow> uint_t \<Rightarrow> uint_t \<Rightarrow> cvector_t option" where
  "measure_reset_update_perm dimn final_state meas_state =
     Option.bind
       (store (replicate (unat (dimn * dimn)) c_zero) (unat (final_state * dimn + meas_state)) c_one)
       (\<lambda>perm. Option.bind (store perm (unat (meas_state * dimn + final_state)) c_one)
       (\<lambda>perm. fold
          (\<lambda>j acc. Option.bind acc
             (\<lambda>perm. if j \<noteq> final_state \<and> j \<noteq> meas_state
                then store perm (unat (j * dimn + j)) c_one else Some perm))
          (map word_of_nat [0..<unat dimn]) (Some perm)))"

definition measure_reset_update ::
  "('q, 'k, 'r, 's) env \<Rightarrow> reg_t \<Rightarrow> uint_t \<Rightarrow> uint_t \<Rightarrow> double
     \<Rightarrow> (unit, ('q, 'k, 'r, 's) world) action" where
  "measure_reset_update E qubits final_state meas_state meas_prob =
     (if length qubits = 1 then
        (case store (replicate 2 c_zero) (unat meas_state)
                (of_double (d_div (Finite 1) (d_sqrt meas_prob))) of
           None \<Rightarrow> throw unchecked_access
         | Some mdiag \<Rightarrow>
             bind (apply_diagonal_unitary_matrix E qubits mdiag)
               (\<lambda>_. if final_state \<noteq> meas_state
                     then on_qreg E (QV_apply_x (qubits ! 0)) else returns ()))
      else
        (let dimn = push_bit (length qubits) (1 :: uint_t) in
         case store (replicate (unat dimn) c_zero) (unat meas_state)
                (of_double (d_div (Finite 1) (d_sqrt meas_prob))) of
           None \<Rightarrow> throw unchecked_access
         | Some mdiag \<Rightarrow>
             bind (apply_diagonal_unitary_matrix E qubits mdiag)
               (\<lambda>_. if final_state \<noteq> meas_state
                     then (case measure_reset_update_perm dimn final_state meas_state of
                             None \<Rightarrow> throw unchecked_access
                           | Some perm \<Rightarrow> on_qreg E (QV_apply_unitary_matrix qubits perm))
                     else returns ())))"

definition apply_measure ::
  "('q, 'k, 'r, 's) env \<Rightarrow> reg_t \<Rightarrow> reg_t \<Rightarrow> reg_t \<Rightarrow> (unit, ('q, 'k, 'r, 's) world) action" where
  "apply_measure E qubits cmemory cregister =
     bind (sample_measure_with_prob E qubits)
       (\<lambda>meas. bind (measure_reset_update E qubits (fst meas) (fst meas) (snd meas))
       (\<lambda>_. modify (\<lambda>w. w\<lparr>creg :=
               store_measure (CL E) (int2reg (UT E) (fst meas) 2 (word_of_nat (length qubits)))
                 cmemory cregister (creg w)\<rparr>)))"

subsection \<open>Reduced density matrices\<close>

text \<open>
  One pass of \<^verbatim>\<open>for (int_t i = 0; i < VDIM; ++i)\<close> in
  \<^verbatim>\<open>reduced_density_matrix_helper\<close>: entry \<open>i\<close> of the reduced matrix is combined with
  \<^verbatim>\<open>vmat[inds[i]]\<close>. The first pass keeps the new value
  (\<^verbatim>\<open>reduced_state[i] = std::move(...)\<close>), the later ones add it
  (\<^verbatim>\<open>reduced_state[i] += ...\<close>).
\<close>

fun block_loop ::
  "(complex_t \<Rightarrow> complex_t \<Rightarrow> complex_t) \<Rightarrow> cvector_t \<Rightarrow> uint_t list \<Rightarrow> nat list
     \<Rightarrow> cvector_t \<Rightarrow> cvector_t option" where
  "block_loop f vmat inds [] reduced_state = Some reduced_state"
| "block_loop f vmat inds (i # rest) reduced_state =
     (if i < length inds \<and> unat (inds ! i) < length vmat \<and> i < length reduced_state
      then block_loop f vmat inds rest
             (reduced_state[i := f (reduced_state ! i) (vmat ! unat (inds ! i))])
      else None)"

definition reduced_density_matrix_helper ::
  "('q, 'k, 'r, 's) env \<Rightarrow> reg_t \<Rightarrow> reg_t \<Rightarrow> (cmatrix_t, ('q, 'k, 'r, 's) world) action" where
  "reduced_density_matrix_helper E qubits qubits_sorted w =
     (let squbits = superop_qubits (qv_num_qubits (QV E) (qreg w)) qubits;
          squbits_sorted = superop_qubits (qv_num_qubits (QV E) (qreg w)) qubits_sorted;
          N = length qubits;
          DIM = push_bit N (1 :: uint_t);
          VDIM = nat (sint (push_bit (2 * N) (1 :: uint_t)));
          END = push_bit (unat (qv_num_qubits (QV E) (qreg w) - word_of_nat N)) (1 :: uint_t);
          SHIFT = END + 1;
          vmat = qv_vector (QV E) (qreg w);
          reduced_state = replicate (unat (DIM * DIM)) undefined
      in
      case fold
             (\<lambda>k acc. Option.bind acc
                (block_loop c_add vmat (indexes squbits squbits_sorted (k * SHIFT))
                   [0..<VDIM]))
             (map word_of_nat [1..<unat END])
             (block_loop (\<lambda>old new. new) vmat (indexes squbits squbits_sorted 0)
                [0..<VDIM] reduced_state) of
        None \<Rightarrow> throw unchecked_access w
      | Some filled \<Rightarrow>
          returns \<lparr>GetRows = unat DIM, GetColumns = unat DIM, entries = filled\<rparr> w)"

definition reduced_density_matrix ::
  "('q, 'k, 'r, 's) env \<Rightarrow> reg_t \<Rightarrow> bool \<Rightarrow> (cmatrix_t, ('q, 'k, 'r, 's) world) action" where
  "reduced_density_matrix E qubits last_op w =
     (if qubits = [] then
        returns \<lparr>GetRows = 1, GetColumns = 1, entries = [qv_trace (QV E) (qreg w)]\<rparr> w
      else
        (let qubits_sorted = sort qubits in
         if length qubits = unat (qv_num_qubits (QV E) (qreg w)) \<and> qubits = qubits_sorted then
           (if last_op then move_to_matrix E w else copy_to_matrix E w)
         else reduced_density_matrix_helper E qubits qubits_sorted w))"

subsection \<open>Saving data\<close>

definition save_average ::
  "('q, 'k, 'r, 's) env \<Rightarrow> string \<Rightarrow> save_data \<Rightarrow> OpType \<Rightarrow> DataSubType
     \<Rightarrow> (unit, ('q, 'k, 'r, 's) world) action" where
  \<comment> \<open>\<^verbatim>\<open>result.save_data_average(BaseState::creg(), key, data, type, save_type)\<close>\<close>
  "save_average E key dat ty sub =
     modify (\<lambda>w. w\<lparr>result := save_data_average (CL E) (creg w) key dat ty sub (result w)\<rparr>)"

definition apply_save_probs ::
  "('q, 'k, 'r, 's) env \<Rightarrow> Op \<Rightarrow> (unit, ('q, 'k, 'r, 's) world) action" where
  "apply_save_probs E op w =
     (let probs = measure_probs E (op_qubits op) w in
      requires (0 < length (op_string_params op))
        (if op_type op = OpType_save_probs_ket then
           save_average E (op_string_params op ! 0)
             (Ket_data (vec2ket (UT E) probs (json_chop_threshold w) 16))
             (op_type op) (op_save_type op)
         else
           save_average E (op_string_params op ! 0) (Vector_data probs)
             (op_type op) (op_save_type op)) w)"

definition apply_save_amplitudes_sq ::
  "('q, 'k, 'r, 's) env \<Rightarrow> Op \<Rightarrow> (unit, ('q, 'k, 'r, 's) world) action" where
  "apply_save_amplitudes_sq E op w =
     (if op_int_params op = [] then
        throw (invalid_argument ''Invalid save_amplitudes_sq instructions (empty params).'') w
      else
        (let amps_sq = map (qv_probability (QV E) (qreg w)) (op_int_params op) in
         requires (0 < length (op_string_params op))
           (save_average E (op_string_params op ! 0) (Vector_data amps_sq)
              (op_type op) (op_save_type op)) w))"

definition expval_pauli ::
  "('q, 'k, 'r, 's) env \<Rightarrow> ('q, 'k, 'r, 's) world \<Rightarrow> reg_t \<Rightarrow> string \<Rightarrow> double" where
  "expval_pauli E w qubits pauli = qv_expval_pauli (QV E) (qreg w) qubits pauli"

definition apply_save_density_matrix ::
  "('q, 'k, 'r, 's) env \<Rightarrow> Op \<Rightarrow> bool \<Rightarrow> (unit, ('q, 'k, 'r, 's) world) action" where
  "apply_save_density_matrix E op last_op =
     requires (0 < length (op_string_params op))
       (bind (reduced_density_matrix E (op_qubits op) last_op)
          (\<lambda>m. save_average E (op_string_params op ! 0) (Matrix_data m)
                  (op_type op) (op_save_type op)))"

definition apply_save_state ::
  "('q, 'k, 'r, 's) env \<Rightarrow> Op \<Rightarrow> bool \<Rightarrow> (unit, ('q, 'k, 'r, 's) world) action" where
  "apply_save_state E op last_op w =
     (if length (op_qubits op) \<noteq> unat (qv_num_qubits (QV E) (qreg w)) then
        throw (invalid_argument
                 (op_name op @ '' was not applied to all qubits.''
                    @ '' Only the full state can be saved.'')) w
      else
        (let save_type =
               (case op_save_type op of
                  DataSubType_single \<Rightarrow> DataSubType_average
                | DataSubType_c_single \<Rightarrow> DataSubType_c_average
                | _ \<Rightarrow> op_save_type op)
         in
         requires (0 < length (op_string_params op))
           (let key = (if op_string_params op ! 0 = ''_method_'' then ''density_matrix''
                       else op_string_params op ! 0)
            in
            if last_op then
              bind (move_to_matrix E)
                (\<lambda>m. save_average E key (Matrix_data m) OpType_save_densmat save_type)
            else
              bind (copy_to_matrix E)
                (\<lambda>m. save_average E key (Matrix_data m) OpType_save_densmat save_type)) w))"

subsection \<open>Gates\<close>

definition invalid_gate_unknown :: "string \<Rightarrow> error" where
  \<comment> \<open>thrown when \<^verbatim>\<open>gateset_.find(op.name)\<close> finds nothing\<close>
  "invalid_gate_unknown nm =
     invalid_argument (''DensityMatrixState::invalid gate instruction '' @ quote @ nm @ quote @ ''.'')"

definition invalid_gate_default :: "string \<Rightarrow> error" where
  \<comment> \<open>thrown by the \<^verbatim>\<open>default\<close> case of the switch over the gate\<close>
  "invalid_gate_default nm =
     invalid_argument (''DensityMatrix::State::invalid gate instruction '' @ quote @ nm @ quote @ ''.'')"

definition exp_i :: "('q, 'k, 'r, 's) env \<Rightarrow> complex_t \<Rightarrow> complex_t" where
  \<comment> \<open>\<^verbatim>\<open>std::exp(complex_t(0., 1.) * z)\<close>\<close>
  "exp_i E z = c_exp (UT E) (c_mul (UT E) (Finite 0, Finite 1) z)"

definition isqrt2 :: double where
  \<comment> \<open>\<^verbatim>\<open>1. / std::sqrt(2)\<close>\<close>
  "isqrt2 = d_div (Finite 1) (d_sqrt (Finite 2))"

definition apply_gate_statevector ::
  "('q, 'k, 'r, 's) env \<Rightarrow> Op \<Rightarrow> (unit, ('q, 'k, 'r, 's) world) action" where
  "apply_gate_statevector E op w =
     (case map_of gateset (op_name op) of
        None \<Rightarrow> throw (invalid_gate_unknown (op_name op)) w
      | Some g \<Rightarrow>
         (case g of
            Gates_x \<Rightarrow> on_qreg E (QV_apply_mcx (op_qubits op)) w
          | Gates_cx \<Rightarrow> on_qreg E (QV_apply_mcx (op_qubits op)) w
          | Gates_u1 \<Rightarrow>
              requires (0 < length (op_qubits op) \<and> 0 < length (op_params op))
                (if op_qubits op ! (length (op_qubits op) - 1) < qv_num_qubits (QV E) (qreg w)
                 then on_qreg E (QV_apply_mcphase (op_qubits op) (exp_i E (op_params op ! 0)))
                 else on_qreg E
                        (QV_apply_mcphase (op_qubits op) (c_conj (exp_i E (op_params op ! 0))))) w
          | Gates_y \<Rightarrow> on_qreg E (QV_apply_mcy (op_qubits op)) w
          | Gates_z \<Rightarrow> on_qreg E (QV_apply_mcphase (op_qubits op) (of_double (Finite (- 1)))) w
          | _ \<Rightarrow> throw (invalid_gate_default (op_name op)) w))"

text \<open>
  The second half of \<^verbatim>\<open>apply_gate\<close> (from \<^verbatim>\<open>// Look for gate name in gateset\<close> on):
  the lookup of the name and the switch over the gate. The cases read
  \<^verbatim>\<open>op.qubits[i]\<close>, \<^verbatim>\<open>op.params[i]\<close> and \<^verbatim>\<open>op.string_params[0]\<close> unchecked.
  The switch names every member of \<^verbatim>\<open>Gates\<close>, so its \<^verbatim>\<open>default\<close> is never taken.
\<close>

definition apply_gate_switch ::
  "('q, 'k, 'r, 's) env \<Rightarrow> Op \<Rightarrow> (unit, ('q, 'k, 'r, 's) world) action" where
  "apply_gate_switch E op =
     (let qs = op_qubits op; ps = op_params op in
      case map_of gateset (op_name op) of
        None \<Rightarrow> throw (invalid_gate_unknown (op_name op))
      | Some g \<Rightarrow>
         (case g of
            Gates_u3 \<Rightarrow>
              requires (0 < length qs \<and> 2 < length ps)
                (apply_gate_u3 E (qs ! 0) (fst (ps ! 0)) (fst (ps ! 1)) (fst (ps ! 2)))
          | Gates_u2 \<Rightarrow>
              requires (0 < length qs \<and> 1 < length ps)
                (apply_gate_u3 E (qs ! 0) (d_div (Finite pi) (Finite 2))
                   (fst (ps ! 0)) (fst (ps ! 1)))
          | Gates_u1 \<Rightarrow>
              requires (0 < length qs \<and> 0 < length ps)
                (apply_phase E (qs ! 0) (exp_i E (ps ! 0)))
          | Gates_cx \<Rightarrow>
              requires (1 < length qs) (on_qreg E (QV_apply_cnot (qs ! 0) (qs ! 1)))
          | Gates_cy \<Rightarrow>
              requires (1 < length qs) (on_qreg E (QV_apply_cy (qs ! 0) (qs ! 1)))
          | Gates_cz \<Rightarrow>
              requires (1 < length qs)
                (on_qreg E (QV_apply_cphase (qs ! 0) (qs ! 1) (of_double (Finite (- 1)))))
          | Gates_cp \<Rightarrow>
              requires (1 < length qs \<and> 0 < length ps)
                (on_qreg E (QV_apply_cphase (qs ! 0) (qs ! 1) (exp_i E (ps ! 0))))
          | Gates_id \<Rightarrow> returns ()
          | Gates_x \<Rightarrow> requires (0 < length qs) (on_qreg E (QV_apply_x (qs ! 0)))
          | Gates_y \<Rightarrow> requires (0 < length qs) (on_qreg E (QV_apply_y (qs ! 0)))
          | Gates_z \<Rightarrow>
              requires (0 < length qs) (apply_phase E (qs ! 0) (of_double (Finite (- 1))))
          | Gates_h \<Rightarrow>
              requires (0 < length qs)
                (apply_gate_u3 E (qs ! 0) (d_div (Finite pi) (Finite 2)) (Finite 0) (Finite pi))
          | Gates_s \<Rightarrow>
              requires (0 < length qs) (apply_phase E (qs ! 0) (Finite 0, Finite 1))
          | Gates_sdg \<Rightarrow>
              requires (0 < length qs) (apply_phase E (qs ! 0) (Finite 0, Finite (- 1)))
          | Gates_sx \<Rightarrow> on_qreg E (QV_apply_unitary_matrix qs (VMatrix_SX (VM E)))
          | Gates_sxdg \<Rightarrow> on_qreg E (QV_apply_unitary_matrix qs (VMatrix_SXDG (VM E)))
          | Gates_t \<Rightarrow>
              requires (0 < length qs) (apply_phase E (qs ! 0) (isqrt2, isqrt2))
          | Gates_tdg \<Rightarrow>
              requires (0 < length qs) (apply_phase E (qs ! 0) (isqrt2, d_neg isqrt2))
          | Gates_swap \<Rightarrow>
              requires (1 < length qs) (on_qreg E (QV_apply_swap (qs ! 0) (qs ! 1)))
          | Gates_ecr \<Rightarrow> on_qreg E (QV_apply_unitary_matrix qs (VMatrix_ECR (VM E)))
          | Gates_ccx \<Rightarrow>
              requires (2 < length qs)
                (on_qreg E (QV_apply_toffoli (qs ! 0) (qs ! 1) (qs ! 2)))
          | Gates_r \<Rightarrow>
              requires (1 < length ps)
                (on_qreg E (QV_apply_unitary_matrix qs (VMatrix_r (VM E) (ps ! 0) (ps ! 1))))
          | Gates_rx \<Rightarrow>
              requires (0 < length ps)
                (on_qreg E (QV_apply_unitary_matrix qs (VMatrix_rx (VM E) (ps ! 0))))
          | Gates_ry \<Rightarrow>
              requires (0 < length ps)
                (on_qreg E (QV_apply_unitary_matrix qs (VMatrix_ry (VM E) (ps ! 0))))
          | Gates_rz \<Rightarrow>
              requires (0 < length ps)
                (apply_diagonal_unitary_matrix E qs (VMatrix_rz_diag (VM E) (ps ! 0)))
          | Gates_rxx \<Rightarrow>
              requires (0 < length ps)
                (on_qreg E (QV_apply_unitary_matrix qs (VMatrix_rxx (VM E) (ps ! 0))))
          | Gates_ryy \<Rightarrow>
              requires (0 < length ps)
                (on_qreg E (QV_apply_unitary_matrix qs (VMatrix_ryy (VM E) (ps ! 0))))
          | Gates_rzz \<Rightarrow>
              requires (0 < length ps)
                (apply_diagonal_unitary_matrix E qs (VMatrix_rzz_diag (VM E) (ps ! 0)))
          | Gates_rzx \<Rightarrow>
              requires (0 < length ps)
                (on_qreg E (QV_apply_unitary_matrix qs (VMatrix_rzx (VM E) (ps ! 0))))
          | Gates_pauli \<Rightarrow>
              requires (0 < length (op_string_params op))
                (apply_pauli E qs (op_string_params op ! 0))))"

subsection \<open>Gates on a chunk\<close>

text \<open>
  Modelled from the spec: \<^verbatim>\<open>Chunk::get_inout_ctrl_qubits\<close> is defined in
  \<^verbatim>\<open>simulators/chunk_utils.hpp\<close>, which is not among the sources. The spec (4.2,
  \<^verbatim>\<open>split_control_qubits\<close>) has it partition the qubit operands into those addressable
  within this chunk (\<open>qubits_in\<close>, index below the local qubit count) and those that
  address a global bit (\<open>qubits_out\<close>).
\<close>

definition get_inout_ctrl_qubits :: "Op \<Rightarrow> uint_t \<Rightarrow> reg_t \<times> reg_t" where
  "get_inout_ctrl_qubits op nq =
     (filter (\<lambda>q. q < nq) (op_qubits op), filter (\<lambda>q. \<not> q < nq) (op_qubits op))"

text \<open>
  Modelled from the spec: \<^verbatim>\<open>Chunk::correct_gate_op_in_chunk\<close>, of the same missing
  header. The spec (4.2, \<^verbatim>\<open>remap_qubits_in_chunk\<close>) has it return a copy of the
  operation whose qubit operands are the local ones. The spec does not say which gate name
  the copy carries: it is the parameter \<open>gate_name_in_chunk\<close>.
\<close>

definition correct_gate_op_in_chunk :: "('q, 'k, 'r, 's) env \<Rightarrow> Op \<Rightarrow> reg_t \<Rightarrow> Op" where
  "correct_gate_op_in_chunk E op qubits_in =
     op\<lparr>op_name := gate_name_in_chunk (UT E) op qubits_in, op_qubits := qubits_in\<rparr>"

text \<open>
  The locals of the first half of \<^verbatim>\<open>apply_gate\<close>: whether the state is one chunk of
  several on a buffer that does not index globally; \<open>qubits_in\<close> and \<open>qubits_out\<close>
  after the call that the name of the gate guards; the mask of the global qubits; and the
  two tests of the chunk index against it.
\<close>

definition chunked ::
  "('q, 'k, 'r, 's) env \<Rightarrow> ('q, 'k, 'r, 's) world \<Rightarrow> bool" where
  "chunked E w =
     (qv_num_qubits (QV E) (qreg w) < num_global_qubits w
      \<and> \<not> qv_support_global_indexing (QV E) (qreg w))"

definition inout_qubits ::
  "('q, 'k, 'r, 's) env \<Rightarrow> Op \<Rightarrow> ('q, 'k, 'r, 's) world \<Rightarrow> reg_t \<times> reg_t" where
  "inout_qubits E op w =
     (if take 1 (op_name op) = ''c'' \<or> take 2 (op_name op) = ''mc''
      then get_inout_ctrl_qubits op (qv_num_qubits (QV E) (qreg w))
      else ([], []))"

definition ctrl_mask ::
  "('q, 'k, 'r, 's) env \<Rightarrow> reg_t \<Rightarrow> ('q, 'k, 'r, 's) world \<Rightarrow> uint_t" where
  "ctrl_mask E qubits_out w =
     fold (\<lambda>q mask. mask OR push_bit (unat (q - qv_num_qubits (QV E) (qreg w))) 1)
       qubits_out 0"

definition ctrl_chunk ::
  "('q, 'k, 'r, 's) env \<Rightarrow> reg_t \<Rightarrow> ('q, 'k, 'r, 's) world \<Rightarrow> bool" where
  "ctrl_chunk E qubits_out w =
     (qv_chunk_index (QV E) (qreg w) AND ctrl_mask E qubits_out w = ctrl_mask E qubits_out w)"

definition ctrl_chunk_sp ::
  "('q, 'k, 'r, 's) env \<Rightarrow> reg_t \<Rightarrow> ('q, 'k, 'r, 's) world \<Rightarrow> bool" where
  "ctrl_chunk_sp E qubits_out w =
     (drop_bit (unat (num_global_qubits w - qv_num_qubits (QV E) (qreg w)))
        (qv_chunk_index (QV E) (qreg w)) AND ctrl_mask E qubits_out w
      = ctrl_mask E qubits_out w)"

function apply_gate ::
  "('q, 'k, 'r, 's) env \<Rightarrow> Op \<Rightarrow> (unit, ('q, 'k, 'r, 's) world) action" where
  "apply_gate E op w =
     (if chunked E w \<and> 0 < length (snd (inout_qubits E op w)) then
        (if \<not> ctrl_chunk E (snd (inout_qubits E op w)) w
            \<and> \<not> ctrl_chunk_sp E (snd (inout_qubits E op w)) w
         then returns () w
         else if ctrl_chunk E (snd (inout_qubits E op w)) w
                 \<and> ctrl_chunk_sp E (snd (inout_qubits E op w)) w
         then apply_gate E (correct_gate_op_in_chunk E op (fst (inout_qubits E op w))) w
         else if ctrl_chunk E (snd (inout_qubits E op w)) w
         then apply_gate_statevector E
                (correct_gate_op_in_chunk E op (fst (inout_qubits E op w))) w
         else apply_gate_statevector E
                ((correct_gate_op_in_chunk E op (fst (inout_qubits E op w)))
                   \<lparr>op_qubits :=
                      map (\<lambda>q. q + qv_num_qubits (QV E) (qreg w))
                        (op_qubits (correct_gate_op_in_chunk E op (fst (inout_qubits E op w))))\<rparr>)
                w)
      else apply_gate_switch E op w)"
  by pat_completeness auto
termination
proof (relation "measure (\<lambda>(E, op, w).
        length (filter (\<lambda>q. \<not> q < qv_num_qubits (QV E) (qreg w)) (op_qubits op)))")
  show "wf (measure (\<lambda>(E :: ('q, 'k, 'r, 's) env, op, w :: ('q, 'k, 'r, 's) world).
        length (filter (\<lambda>q. \<not> q < qv_num_qubits (QV E) (qreg w)) (op_qubits op))))"
    by simp
next
  fix E :: "('q, 'k, 'r, 's) env" and op :: Op and w :: "('q, 'k, 'r, 's) world"
  assume "chunked E w \<and> 0 < length (snd (inout_qubits E op w))"
  then have out: "snd (inout_qubits E op w) \<noteq> []"
    by simp
  then have guard: "take 1 (op_name op) = ''c'' \<or> take 2 (op_name op) = ''mc''"
    by (auto simp: inout_qubits_def split: if_splits)
  have "filter (\<lambda>q. \<not> q < qv_num_qubits (QV E) (qreg w)) (op_qubits op) \<noteq> []"
    using out guard by (simp add: inout_qubits_def get_inout_ctrl_qubits_def)
  moreover have
    "filter (\<lambda>q. \<not> q < qv_num_qubits (QV E) (qreg w))
       (op_qubits (correct_gate_op_in_chunk E op (fst (inout_qubits E op w)))) = []"
    using guard
    by (simp add: correct_gate_op_in_chunk_def inout_qubits_def get_inout_ctrl_qubits_def)
  ultimately show
    "((E, correct_gate_op_in_chunk E op (fst (inout_qubits E op w)), w), (E, op, w))
       \<in> measure (\<lambda>(E, op, w).
            length (filter (\<lambda>q. \<not> q < qv_num_qubits (QV E) (qreg w)) (op_qubits op)))"
    by simp
qed

subsection \<open>The dispatcher\<close>

definition invalid_instruction :: "string \<Rightarrow> error" where
  "invalid_instruction nm =
     invalid_argument (''DensityMatrix::State::invalid instruction '' @ quote @ nm @ quote @ ''.'')"

definition apply_op ::
  "('q, 'k, 'r, 's) env \<Rightarrow> Op \<Rightarrow> bool \<Rightarrow> (unit, ('q, 'k, 'r, 's) world) action" where
  "apply_op E op final_ops w =
     (if check_conditional (CL E) (creg w) op then
        (case op_type op of
           OpType_barrier \<Rightarrow> returns () w
         | OpType_qerror_loc \<Rightarrow> returns () w
         | OpType_reset \<Rightarrow> apply_reset E (op_qubits op) w
         | OpType_measure \<Rightarrow>
             apply_measure E (op_qubits op) (op_memory op) (op_registers op) w
         | OpType_bfunc \<Rightarrow> modify (\<lambda>w. w\<lparr>creg := apply_bfunc (CL E) op (creg w)\<rparr>) w
         | OpType_roerror \<Rightarrow>
             modify (\<lambda>w. let r = apply_roerror (CL E) op (rng w) (creg w)
                         in w\<lparr>creg := fst r, rng := snd r\<rparr>) w
         | OpType_gate \<Rightarrow> apply_gate E op w
         | OpType_matrix \<Rightarrow>
             requires (0 < length (op_mats op)) (apply_matrix E (op_qubits op) (op_mats op ! 0)) w
         | OpType_diagonal_matrix \<Rightarrow>
             apply_diagonal_unitary_matrix E (op_qubits op) (op_params op) w
         | OpType_superop \<Rightarrow>
             requires (0 < length (op_mats op))
               (on_qreg E
                  (QV_apply_superop_matrix (op_qubits op)
                     (vectorize_matrix (UT E) (op_mats op ! 0)))) w
         | OpType_kraus \<Rightarrow> apply_kraus E (op_qubits op) (op_mats op) w
         | OpType_set_statevec \<Rightarrow> initialize_from_vector E (op_params op) w
         | OpType_set_densmat \<Rightarrow>
             requires (0 < length (op_mats op))
               (on_qreg E (QV_initialize_from_matrix (op_mats op ! 0))) w
         | OpType_save_expval \<Rightarrow>
             modify (\<lambda>w. w\<lparr>result :=
               base_apply_save_expval (CL E) (expval_pauli E w) op (creg w) (result w)\<rparr>) w
         | OpType_save_expval_var \<Rightarrow>
             modify (\<lambda>w. w\<lparr>result :=
               base_apply_save_expval (CL E) (expval_pauli E w) op (creg w) (result w)\<rparr>) w
         | OpType_save_state \<Rightarrow> apply_save_state E op final_ops w
         | OpType_save_densmat \<Rightarrow> apply_save_density_matrix E op final_ops w
         | OpType_save_probs \<Rightarrow> apply_save_probs E op w
         | OpType_save_probs_ket \<Rightarrow> apply_save_probs E op w
         | OpType_save_amps_sq \<Rightarrow> apply_save_amplitudes_sq E op w
         | _ \<Rightarrow> throw (invalid_instruction (op_name op)) w)
      else returns () w)"

subsection \<open>Sampling without measuring\<close>

text \<open>
  Modelled from the spec: the member \<^verbatim>\<open>sample_measure\<close> of the buffer, which is
  defined in \<^verbatim>\<open>densitymatrix.hpp\<close> and is not among the sources. The spec counts
  "sample indices from an implicit probability distribution" among what the buffer
  exposes (2, item 3), has each draw inverse-transformed against the probability
  distribution of the full register (4.4), and has the sampling leave the buffer as it
  is. So the member is a function of the buffer and the draws that returns one index for
  each draw: the first index at which the running sum of the probabilities of the basis
  states exceeds the draw, and the last index when none does.
\<close>

fun inverse_transform :: "double list \<Rightarrow> double \<Rightarrow> double \<Rightarrow> nat \<Rightarrow> nat" where
  "inverse_transform [] rnd p i = i"
| "inverse_transform [pr] rnd p i = i"
| "inverse_transform (pr # rest) rnd p i =
     (if d_less rnd (d_add p pr) then i else inverse_transform rest rnd (d_add p pr) (Suc i))"

definition qv_sample_measure :: "('q, 'k, 'r, 's) env \<Rightarrow> 'q \<Rightarrow> double list \<Rightarrow> reg_t" where
  "qv_sample_measure E q rnds =
     map (\<lambda>rnd. word_of_nat
            (inverse_transform
               (map (\<lambda>i. qv_probability (QV E) q (word_of_nat i))
                  [0..<2 ^ unat (qv_num_qubits (QV E) q)])
               rnd (Finite 0) 0))
       rnds"

text \<open>The loop that draws \<^verbatim>\<open>shots\<close> numbers with \<^verbatim>\<open>rng.rand(0, 1)\<close>.\<close>

fun draw_rnds :: "('q, 'k, 'r, 's) env \<Rightarrow> nat \<Rightarrow> 'r \<Rightarrow> double list \<times> 'r" where
  "draw_rnds E 0 r = ([], r)"
| "draw_rnds E (Suc n) r =
     (let d = rand (CL E) (Finite 0) (Finite 1) r;
          rest = draw_rnds E n (snd d)
      in (fst d # fst rest, snd rest))"

text \<open>
  The body of the loop over \<^verbatim>\<open>allbit_samples\<close>: the bits of one sample at the measured
  qubits, read unchecked from \<^verbatim>\<open>allbit_sample\<close>.
\<close>

definition select_bits :: "reg_t \<Rightarrow> reg_t \<Rightarrow> reg_t option" where
  "select_bits allbit_sample qubits =
     (if \<forall>qubit \<in> set qubits. unat qubit < length allbit_sample
      then Some (map (\<lambda>qubit. allbit_sample ! unat qubit) qubits) else None)"

definition sample_measure ::
  "('q, 'k, 'r, 's) env \<Rightarrow> reg_t \<Rightarrow> uint_t \<Rightarrow> (reg_t list, ('q, 'k, 'r, 's) world) action" where
  "sample_measure E qubits shots w =
     (let drawn = draw_rnds E (unat shots) (rng w);
          rnds = fst drawn;
          allbit_samples = qv_sample_measure E (qreg w) rnds;
          all_samples =
            map (\<lambda>val. select_bits
                         (int2reg (UT E) val 2 (qv_num_qubits (QV E) (qreg w))) qubits)
              allbit_samples
      in requires (None \<notin> set all_samples) (returns (map the all_samples))
           (w\<lparr>rng := snd drawn\<rparr>))"

subsection \<open>The objects of the spec\<close>

text \<open>
  The diagonal projector of the spec (4.4, step 1): \<open>2^k\<close> entries, all zero except
  \<open>v\<close> at the index \<open>m\<close>.
\<close>

definition diagonal_projector :: "nat \<Rightarrow> nat \<Rightarrow> complex_t \<Rightarrow> cvector_t" where
  "diagonal_projector k m v = map (\<lambda>i. if i = m then v else c_zero) [0..<2 ^ k]"

text \<open>
  The permutation matrix of the spec (4.4, step 3), vectorized: \<open>2^k\<close> blocks of \<open>2^k\<close>
  entries; entry \<open>b\<close> of block \<open>a\<close> is one when the pair \<open>(a, b)\<close> is \<open>(f, m)\<close> or
  \<open>(m, f)\<close>, or when \<open>a = b\<close> is neither \<open>f\<close> nor \<open>m\<close>, and zero otherwise: the
  matrix that swaps the basis states \<open>f\<close> and \<open>m\<close> and is the identity elsewhere.
\<close>

definition swap_entry :: "nat \<Rightarrow> nat \<Rightarrow> nat \<Rightarrow> nat \<Rightarrow> complex_t" where
  "swap_entry f m a b =
     (if (a = f \<and> b = m) \<or> (a = m \<and> b = f) \<or> (a = b \<and> a \<noteq> f \<and> a \<noteq> m)
      then c_one else c_zero)"

definition swap_matrix :: "nat \<Rightarrow> nat \<Rightarrow> nat \<Rightarrow> cvector_t" where
  "swap_matrix k f m =
     concat (map (\<lambda>a. map (\<lambda>b. swap_entry f m a b) [0..<2 ^ k]) [0..<2 ^ k])"

text \<open>The case labels of the switch in \<^verbatim>\<open>apply_op\<close>.\<close>

definition apply_op_cases :: "OpType list" where
  "apply_op_cases =
     [OpType_barrier, OpType_qerror_loc, OpType_reset, OpType_measure, OpType_bfunc,
      OpType_roerror, OpType_gate, OpType_matrix, OpType_diagonal_matrix, OpType_superop,
      OpType_kraus, OpType_set_statevec, OpType_set_densmat, OpType_save_expval,
      OpType_save_expval_var, OpType_save_state, OpType_save_densmat, OpType_save_probs,
      OpType_save_probs_ket, OpType_save_amps_sq]"

text \<open>
  One turn of the loop over \<^verbatim>\<open>j\<close> in \<^verbatim>\<open>measure_reset_update\<close>, on indices read as
  natural numbers: the diagonal entry of \<open>j\<close> becomes one unless \<open>j\<close> is \<open>f\<close> or \<open>m\<close>.
\<close>

definition diag_step :: "nat \<Rightarrow> nat \<Rightarrow> nat \<Rightarrow> nat \<Rightarrow> cvector_t \<Rightarrow> cvector_t" where
  "diag_step f m d j perm = (if j \<noteq> f \<and> j \<noteq> m then perm[j * d + j := c_one] else perm)"








text \<open>
  The Pauli matrices, by the bits of the row and of the column (a letter other than
  \<open>X\<close>, \<open>Y\<close> and \<open>Z\<close> is the identity). They state what the spec (4.3) means by
  the letters of a Pauli string; the code has no counterpart of them.
\<close>

definition pauli_letter :: "char \<Rightarrow> bool \<Rightarrow> bool \<Rightarrow> complex" where
  "pauli_letter p a b =
     (if p = CHR ''X'' then (if a = b then 0 else 1)
      else if p = CHR ''Y'' then (if a = b then 0 else if a then \<i> else - \<i>)
      else if p = CHR ''Z'' then (if a = b then (if a then - 1 else 1) else 0)
      else (if a = b then 1 else 0))"

text \<open>
  Modelled from the spec: what the members \<^verbatim>\<open>apply_x\<close>, \<^verbatim>\<open>apply_y\<close> and
  \<^verbatim>\<open>apply_pauli\<close> of the buffer do to it. They are defined in \<^verbatim>\<open>densitymatrix.hpp\<close>
  and \<^verbatim>\<open>qubitvector.hpp\<close>, which are not among the sources. The spec (9) has the
  density matrix \<open>\<rho>\<close> of \<open>n\<close> qubits stored as a vector of \<open>4^n\<close> entries and
  handled with the primitive operations of a state vector of \<open>2n\<close> qubits, \<open>n\<close> on the
  ket side and \<open>n\<close> on the bra side: entry \<open>(r, c)\<close> of \<open>\<rho>\<close> is the amplitude of
  the basis state \<open>r + 2^n * c\<close>, so qubit \<open>q\<close> is position \<open>q\<close> on the ket side and
  position \<open>q + n\<close> on the bra side.

  \<open>gate1 U p\<close> is the matrix \<open>U\<close> of one qubit at position \<open>p\<close> of a state vector.
  A unitary \<open>U\<close> on qubit \<open>q\<close> of the register takes \<open>\<rho>\<close> to
  \<open>U \<rho> U\<^sup>\<dagger>\<close>, which on the vector is \<open>U\<close> at position \<open>q\<close> and the complex
  conjugate of \<open>U\<close> at position \<open>q + n\<close> (\<open>dm_gate1\<close>); \<^verbatim>\<open>apply_x\<close> and
  \<^verbatim>\<open>apply_y\<close> are that for the Pauli matrices. \<^verbatim>\<open>apply_pauli(qubits, pauli, coeff)\<close>
  is the primitive of the state vector: letter \<open>j\<close> of the string at position
  \<open>qubits[j]\<close> (the example of the spec, 8, has the string \<^verbatim>\<open>XY\<close> put \<^verbatim>\<open>x\<close> on qubit 0
  and \<^verbatim>\<open>y\<close> on qubit 1), and the result times \<open>coeff\<close>. The other calls are given no
  meaning here. \<open>qv_meanings\<close> is the meaning of calls made one after the other.
\<close>

type_synonym amplitudes = "nat \<Rightarrow> complex"

definition gate1 :: "(bool \<Rightarrow> bool \<Rightarrow> complex) \<Rightarrow> nat \<Rightarrow> amplitudes \<Rightarrow> amplitudes" where
  "gate1 U p v i = U (bit i p) False * v (unset_bit p i) + U (bit i p) True * v (set_bit p i)"

fun pauli_positions :: "nat list \<Rightarrow> string \<Rightarrow> amplitudes \<Rightarrow> amplitudes" where
  "pauli_positions (p # ps) (c # cs) v = pauli_positions ps cs (gate1 (pauli_letter c) p v)"
| "pauli_positions _ _ v = v"

definition sv_apply_pauli :: "nat list \<Rightarrow> string \<Rightarrow> complex \<Rightarrow> amplitudes \<Rightarrow> amplitudes" where
  "sv_apply_pauli qubits pauli coeff v = (\<lambda>i. coeff * pauli_positions qubits pauli v i)"

definition dm_gate1 :: "nat \<Rightarrow> (bool \<Rightarrow> bool \<Rightarrow> complex) \<Rightarrow> nat \<Rightarrow> amplitudes \<Rightarrow> amplitudes" where
  "dm_gate1 n U q v = gate1 (\<lambda>a b. cnj (U a b)) (q + n) (gate1 U q v)"

fun qv_meaning :: "nat \<Rightarrow> qv_call \<Rightarrow> (amplitudes \<Rightarrow> amplitudes) option" where
  "qv_meaning n (QV_apply_x q) = Some (dm_gate1 n (pauli_letter (CHR ''X'')) (unat q))"
| "qv_meaning n (QV_apply_y q) = Some (dm_gate1 n (pauli_letter (CHR ''Y'')) (unat q))"
| "qv_meaning n (QV_apply_pauli qubits pauli (Finite a, Finite b)) =
     Some (sv_apply_pauli (map unat qubits) pauli (Complex a b))"
| "qv_meaning n _ = None"

fun qv_meanings :: "nat \<Rightarrow> qv_call list \<Rightarrow> (amplitudes \<Rightarrow> amplitudes) option" where
  "qv_meanings n [] = Some (\<lambda>v. v)"
| "qv_meanings n (c # cs) =
     (case qv_meaning n c of
        None \<Rightarrow> None
      | Some f \<Rightarrow> map_option (\<lambda>g. \<lambda>v. g (f v)) (qv_meanings n cs))"

subsection \<open>A buffer that records its calls\<close>

text \<open>
  To run the model on concrete inputs the parameters are instantiated by test doubles:
  a buffer that appends every call to a log and answers queries from fixed fields, a
  classical register that holds the answer of \<^verbatim>\<open>check_conditional\<close> and the stored
  outcomes, a random number engine that counts its draws, always picks outcome \<open>0\<close> and always
  draws \<open>1/2\<close>,
  and a result that lists what was saved.
\<close>

record recorder =
  rec_num_qubits :: uint_t
  rec_chunk_index :: uint_t
  rec_global_indexing :: bool
  rec_probabilities :: rvector_t
  rec_vector :: cvector_t
  rec_calls :: "qv_call list"

definition rec_matrix :: "recorder \<Rightarrow> cmatrix_t" where
  "rec_matrix q =
     \<lparr>GetRows = 2 ^ unat (rec_num_qubits q), GetColumns = 2 ^ unat (rec_num_qubits q),
      entries = rec_vector q\<rparr>"

definition rec_qubitvector :: "recorder qubitvector" where
  "rec_qubitvector =
     \<lparr>qv_apply = (\<lambda>c q. q\<lparr>rec_calls := rec_calls q @ [c]\<rparr>),
      qv_move_to_matrix = (\<lambda>q. (rec_matrix q, q\<lparr>rec_vector := []\<rparr>)),
      qv_copy_to_matrix = rec_matrix,
      qv_num_qubits = rec_num_qubits,
      qv_chunk_index = rec_chunk_index,
      qv_support_global_indexing = rec_global_indexing,
      qv_trace = (\<lambda>q. c_one),
      qv_vector = rec_vector,
      qv_probabilities = (\<lambda>q qs. rec_probabilities q),
      qv_probability = (\<lambda>q i. if i = 2 then Finite 1 else Finite 0),
      qv_expval_pauli = (\<lambda>q qs p. Finite 0)\<rparr>"

definition rec_utils :: utils where
  "rec_utils =
     \<lparr>tensor_product = (\<lambda>a b. a @ b),
      conjugate = map c_conj,
      vectorize_matrix = entries,
      kraus_superop = (\<lambda>ms. \<lparr>GetRows = 0, GetColumns = 0, entries = concat (map entries ms)\<rparr>),
      vec2ket = (\<lambda>v thr base. []),
      int2reg = (\<lambda>v base n. map (\<lambda>i. if bit v i then 1 else 0) [0..<unat n]),
      block_diagonal_matrix = (\<lambda>chunk nq qs d. (filter (\<lambda>q. q < nq) qs, d)),
      gate_name_in_chunk = (\<lambda>op qs. drop 1 (op_name op)),
      c_exp = (\<lambda>z. z),
      c_mul = (\<lambda>a b. b)\<rparr>"

definition rec_vmatrix :: vmatrix where
  "rec_vmatrix =
     \<lparr>VMatrix_SX = [], VMatrix_SXDG = [], VMatrix_ECR = [],
      VMatrix_r = (\<lambda>a b. [a, b]), VMatrix_rx = (\<lambda>a. [a]), VMatrix_ry = (\<lambda>a. [a]),
      VMatrix_rz_diag = (\<lambda>a. [a]), VMatrix_rxx = (\<lambda>a. [a]), VMatrix_ryy = (\<lambda>a. [a]),
      VMatrix_rzz_diag = (\<lambda>a. [a]), VMatrix_rzx = (\<lambda>a. [a]),
      VMatrix_u3 = (\<lambda>a b c. [of_double a, of_double b, of_double c])\<rparr>"

definition rec_classical :: "(bool \<times> reg_t list, nat, (string \<times> save_data) list) classical" where
  "rec_classical =
     \<lparr>check_conditional = (\<lambda>k op. fst k),
      apply_bfunc = (\<lambda>op k. k),
      apply_roerror = (\<lambda>op r k. (k, r)),
      store_measure = (\<lambda>outcome cmemory cregister k. (fst k, snd k @ [outcome])),
      rand_int = (\<lambda>probs r. (0, Suc r)),
      rand = (\<lambda>lo hi r. (Finite (1 / 2), Suc r)),
      save_data_average = (\<lambda>k key dat ty sub s. s @ [(key, dat)]),
      base_apply_save_expval = (\<lambda>f op k s. s)\<rparr>"

definition rec_env :: "(recorder, bool \<times> reg_t list, nat, (string \<times> save_data) list) env" where
  "rec_env = \<lparr>QV = rec_qubitvector, UT = rec_utils, VM = rec_vmatrix, CL = rec_classical\<rparr>"

text \<open>
  A register of two qubits in one chunk, with sixteen buffer entries and no call made
  yet; the conditional of every operation holds.
\<close>

definition rec_world ::
  "(recorder, bool \<times> reg_t list, nat, (string \<times> save_data) list) world" where
  "rec_world =
     \<lparr>qreg = \<lparr>rec_num_qubits = 2, rec_chunk_index = 0, rec_global_indexing = False,
              rec_probabilities = [Finite (1 / 2), Finite (1 / 2)],
              rec_vector = map (\<lambda>i. of_double (Finite (real i))) [0..<16],
              rec_calls = []\<rparr>,
      creg = (True, []),
      num_global_qubits = 2,
      json_chop_threshold = Finite 0,
      result = [],
      rng = 0\<rparr>"

definition gate_op :: "string \<Rightarrow> reg_t \<Rightarrow> Op" where
  "gate_op nm qs =
     \<lparr>op_type = OpType_gate, op_name = nm, op_qubits = qs, op_memory = [],
      op_registers = [], op_mats = [], op_params = [], op_string_params = [],
      op_int_params = [], op_save_type = DataSubType_average\<rparr>"

definition matrix_op :: "reg_t \<Rightarrow> cmatrix_t \<Rightarrow> Op" where
  "matrix_op qs m = (gate_op ''unitary'' qs)\<lparr>op_type := OpType_matrix, op_mats := [m]\<rparr>"

text \<open>
  The same register as one chunk of two qubits out of four, at a given chunk index, on a
  buffer that does or does not index globally.
\<close>

definition chunk_world ::
  "uint_t \<Rightarrow> bool \<Rightarrow> (recorder, bool \<times> reg_t list, nat, (string \<times> save_data) list) world" where
  "chunk_world index global_indexing =
     rec_world\<lparr>qreg := (qreg rec_world)
                  \<lparr>rec_chunk_index := index, rec_global_indexing := global_indexing\<rparr>,
               num_global_qubits := 4\<rparr>"

text \<open>The vector of the density matrix that is one at entry \<open>j\<close> and zero elsewhere.\<close>

definition basis_state :: "nat \<Rightarrow> amplitudes" where
  "basis_state j = (\<lambda>i. if i = j then 1 else 0)"

section \<open>Properties\<close>

subsection \<open>Basic facts\<close>

lemma d_add_Finite [simp]: "d_add (Finite a) (Finite b) = Finite (a + b)"
  by (simp add: d_add_def is_inf_def)

lemma d_div_sqrt_zero:
  "d_div (Finite 1) (Finite 0) = PosInf"
  "d_div (Finite 1) NegZero = NegInf"
  by (simp_all add: d_div_def is_inf_def is_zero_def signed_inf_def)

lemma upt_4: "[0..<4] = [0, 1, 2, 3]"
  by (simp add: upt_rec)

lemma on_qreg_apply:
  "on_qreg E c w = (Inr (), w\<lparr>qreg := qv_apply (QV E) c (qreg w)\<rparr>)"
  by (simp add: on_qreg_def modify_def)

lemma rec_env_simps:
  "qv_apply (QV rec_env) c q = q\<lparr>rec_calls := rec_calls q @ [c]\<rparr>"
  "qv_move_to_matrix (QV rec_env) q = (rec_matrix q, q\<lparr>rec_vector := []\<rparr>)"
  "qv_copy_to_matrix (QV rec_env) q = rec_matrix q"
  "qv_num_qubits (QV rec_env) q = rec_num_qubits q"
  "qv_chunk_index (QV rec_env) q = rec_chunk_index q"
  "qv_support_global_indexing (QV rec_env) q = rec_global_indexing q"
  "qv_trace (QV rec_env) q = c_one"
  "qv_vector (QV rec_env) q = rec_vector q"
  "qv_probabilities (QV rec_env) q qs = rec_probabilities q"
  "qv_probability (QV rec_env) q i = (if i = 2 then Finite 1 else Finite 0)"
  "vectorize_matrix (UT rec_env) m = entries m"
  "int2reg (UT rec_env) v base n = map (\<lambda>i. if bit v i then 1 else 0) [0..<unat n]"
  "block_diagonal_matrix (UT rec_env) chunk nq qs d = (filter (\<lambda>q. q < nq) qs, d)"
  "check_conditional (CL rec_env) cr op = fst cr"
  "store_measure (CL rec_env) outcome cmemory cregister cr = (fst cr, snd cr @ [outcome])"
  "rand_int (CL rec_env) probs r = (0, Suc r)"
  "rand (CL rec_env) lo hi r = (Finite (1 / 2), Suc r)"
  "save_data_average (CL rec_env) cr key dat ty sub s = s @ [(key, dat)]"
  by (simp_all add: rec_env_def rec_qubitvector_def rec_utils_def rec_classical_def)

lemma rec_world_simps:
  "rec_num_qubits (qreg rec_world) = 2"
  "rec_chunk_index (qreg rec_world) = 0"
  "rec_global_indexing (qreg rec_world) = False"
  "rec_probabilities (qreg rec_world) = [Finite (1 / 2), Finite (1 / 2)]"
  "rec_vector (qreg rec_world) = map (\<lambda>i. of_double (Finite (real i))) [0..<16]"
  "rec_calls (qreg rec_world) = []"
  "creg rec_world = (True, [])"
  "num_global_qubits rec_world = 2"
  "result rec_world = []"
  "rng rec_world = 0"
  by (simp_all add: rec_world_def)

lemmas rec_defs = rec_env_simps rec_world_simps

lemma chunk_world_simps:
  "rec_num_qubits (qreg (chunk_world i g)) = 2"
  "rec_chunk_index (qreg (chunk_world i g)) = i"
  "rec_global_indexing (qreg (chunk_world i g)) = g"
  "rec_calls (qreg (chunk_world i g)) = []"
  "num_global_qubits (chunk_world i g) = 4"
  "creg (chunk_world i g) = (True, [])"
  by (simp_all add: chunk_world_def rec_world_def)

lemma unat_bound64: "unat (x :: uint_t) < 18446744073709551616"
  using unsigned_less [of x, where ?'a = nat] by simp

lemma card_word_less: "card {q :: uint_t. q < n} = unat n"
proof -
  have "{q :: uint_t. q < n} = word_of_nat ` {..<unat n}"
  proof (intro set_eqI iffI)
    fix q :: uint_t assume "q \<in> {q. q < n}"
    then have "unat q < unat n" by (simp add: word_less_nat_alt)
    then have "unat q \<in> {..<unat n}" by simp
    moreover have "q = word_of_nat (unat q)" by simp
    ultimately show "q \<in> word_of_nat ` {..<unat n}"
      by (rule rev_image_eqI)
  next
    fix q :: uint_t assume "q \<in> word_of_nat ` {..<unat n}"
    then obtain i where i: "i < unat n" "q = word_of_nat i" by auto
    then have "unat q = i"
      using unat_bound64 [of n] by (simp add: unat_of_nat)
    with i show "q \<in> {q. q < n}" by (simp add: word_less_nat_alt)
  qed
  moreover have "inj_on (word_of_nat :: nat \<Rightarrow> uint_t) {..<unat n}"
  proof (rule inj_onI)
    fix x y
    assume "x \<in> {..<unat n}" "y \<in> {..<unat n}" "(word_of_nat x :: uint_t) = word_of_nat y"
    then have "unat (word_of_nat x :: uint_t) = unat (word_of_nat y :: uint_t)"
      and "x < 2 ^ 64" and "y < 2 ^ 64"
      using unat_bound64 [of n] by auto
    then show "x = y"
      by (simp add: unat_of_nat)
  qed
  ultimately show ?thesis by (simp add: card_image)
qed

text \<open>
  A list of distinct qubits of the register has as many entries as the register has
  qubits exactly when it lists all of them.
\<close>

lemma covers_iff_length:
  assumes "distinct qs" and "\<forall>q \<in> set qs. q < (n :: uint_t)"
  shows "length qs = unat n \<longleftrightarrow> set qs = {q. q < n}"
proof
  assume "length qs = unat n"
  then have "card (set qs) = card {q. q < n}"
    using assms(1) by (simp add: distinct_card card_word_less)
  moreover have "set qs \<subseteq> {q. q < n}" using assms(2) by auto
  ultimately show "set qs = {q. q < n}"
    by (simp add: card_subset_eq)
next
  assume "set qs = {q. q < n}"
  then have "card (set qs) = unat n" by (simp add: card_word_less)
  then show "length qs = unat n" using assms(1) by (simp add: distinct_card)
qed

subsection \<open>Gates that this chunk skips\<close>

text \<open>
  The mask has a bit for each global qubit, so the chunk index passes the test against
  the mask exactly when it has the bit of every global qubit.
\<close>

lemma bit_one_shift:
  "bit (2 ^ n :: uint_t) i \<longleftrightarrow> i = n \<and> n < 64"
  by (auto simp: bit_exp_iff)

lemma bit_fold_mask:
  "bit (fold (\<lambda>q mask. mask OR push_bit (f q) (1 :: uint_t)) qs m) i
     \<longleftrightarrow> bit m i \<or> (\<exists>q \<in> set qs. f q = i \<and> i < 64)"
  by (induction qs arbitrary: m) (auto simp: bit_or_iff bit_one_shift)

lemma and_mask_eq_iff:
  "(x AND m = m) \<longleftrightarrow> (\<forall>i. bit m i \<longrightarrow> bit x i)" for x m :: uint_t
proof
  assume "x AND m = m"
  then have "bit (x AND m) i = bit m i" for i
    by simp
  then show "\<forall>i. bit m i \<longrightarrow> bit x i"
    by (auto simp: bit_and_iff)
next
  assume "\<forall>i. bit m i \<longrightarrow> bit x i"
  then show "x AND m = m"
    by (intro bit_eqI) (auto simp: bit_and_iff)
qed

lemma ctrl_chunk_iff:
  "ctrl_chunk E qubits_out w \<longleftrightarrow>
     (\<forall>q \<in> set qubits_out. unat (q - qv_num_qubits (QV E) (qreg w)) < 64 \<longrightarrow>
        bit (qv_chunk_index (QV E) (qreg w)) (unat (q - qv_num_qubits (QV E) (qreg w))))"
  unfolding ctrl_chunk_def and_mask_eq_iff ctrl_mask_def bit_fold_mask
  by auto

lemma ctrl_chunk_sp_iff:
  "ctrl_chunk_sp E qubits_out w \<longleftrightarrow>
     (\<forall>q \<in> set qubits_out. unat (q - qv_num_qubits (QV E) (qreg w)) < 64 \<longrightarrow>
        bit (drop_bit (unat (num_global_qubits w - qv_num_qubits (QV E) (qreg w)))
               (qv_chunk_index (QV E) (qreg w)))
          (unat (q - qv_num_qubits (QV E) (qreg w))))"
  unfolding ctrl_chunk_sp_def and_mask_eq_iff ctrl_mask_def bit_fold_mask
  by auto

text \<open>
  C2, as the code has it. The filter is in the branch for a state held in several chunks
  by a buffer that does not index globally, and it looks at the qubits only of a gate
  whose name begins with \<^verbatim>\<open>c\<close> or \<^verbatim>\<open>mc\<close>. For such a gate on such a state: when
  some global qubit of the gate has its bit unset in the chunk index (the row side) and
  some global qubit has its bit unset in the chunk index shifted down by the number of
  global bits (the column side), \<^verbatim>\<open>apply_gate\<close> returns normally and leaves the buffer,
  and everything else, as it was. (The shifts are by less than 64.)
\<close>

theorem apply_gate_skips_chunk:
  assumes name: "take 1 (op_name op) = ''c'' \<or> take 2 (op_name op) = ''mc''"
    and chunks: "qv_num_qubits (QV E) (qreg w) < num_global_qubits w"
    and local_index: "\<not> qv_support_global_indexing (QV E) (qreg w)"
    and shift: "unat (num_global_qubits w - qv_num_qubits (QV E) (qreg w)) < 64"
    and row: "\<exists>q \<in> set (op_qubits op). qv_num_qubits (QV E) (qreg w) \<le> q
          \<and> unat (q - qv_num_qubits (QV E) (qreg w)) < 64
          \<and> \<not> bit (qv_chunk_index (QV E) (qreg w)) (unat (q - qv_num_qubits (QV E) (qreg w)))"
    and col: "\<exists>q \<in> set (op_qubits op). qv_num_qubits (QV E) (qreg w) \<le> q
          \<and> unat (q - qv_num_qubits (QV E) (qreg w)) < 64
          \<and> \<not> bit (drop_bit (unat (num_global_qubits w - qv_num_qubits (QV E) (qreg w)))
                     (qv_chunk_index (QV E) (qreg w)))
                (unat (q - qv_num_qubits (QV E) (qreg w)))"
  shows "apply_gate E op w = (Inr (), w)"
proof -
  let ?nq = "qv_num_qubits (QV E) (qreg w)"
  have out: "snd (inout_qubits E op w) = filter (\<lambda>q. \<not> q < ?nq) (op_qubits op)"
    using name by (simp add: inout_qubits_def get_inout_ctrl_qubits_def)
  have ne: "snd (inout_qubits E op w) \<noteq> []"
    using row unfolding out by (auto simp: filter_empty_conv dest: leD)
  have r: "\<not> ctrl_chunk E (snd (inout_qubits E op w)) w"
    using row unfolding ctrl_chunk_iff out by (auto dest: leD)
  have c: "\<not> ctrl_chunk_sp E (snd (inout_qubits E op w)) w"
    using col unfolding ctrl_chunk_sp_iff out by (auto dest: leD)
  have "chunked E w"
    using chunks local_index by (simp add: chunked_def)
  then show ?thesis
    using ne r c by (simp add: returns_def)
qed

text \<open>
  A \<^verbatim>\<open>ccx\<close> with control qubits 2 and 3 and target qubit 0, on chunk 6 of a register
  of four qubits held in chunks of two. The row index is \<open>2\<close>, which lacks the bit of
  qubit 2, and the column index is \<open>1\<close>, which lacks the bit of qubit 3.
\<close>

theorem apply_gate_skips_chunk_witness:
  "apply_gate rec_env (gate_op ''ccx'' [2, 3, 0]) (chunk_world 6 False)
     = (Inr (), chunk_world 6 False)"
proof -
  let ?w = "chunk_world 6 False"
  let ?op = "gate_op ''ccx'' [2, 3, 0]"
  have nq: "qv_num_qubits (QV rec_env) (qreg ?w) = 2"
    and ci: "qv_chunk_index (QV rec_env) (qreg ?w) = 6"
    by (simp_all add: rec_env_simps chunk_world_simps)
  have name: "take 1 (op_name ?op) = ''c'' \<or> take 2 (op_name ?op) = ''mc''"
    by (simp add: gate_op_def)
  have chunks: "qv_num_qubits (QV rec_env) (qreg ?w) < num_global_qubits ?w"
    unfolding nq by (simp add: chunk_world_simps)
  have li: "\<not> qv_support_global_indexing (QV rec_env) (qreg ?w)"
    by (simp add: rec_env_simps chunk_world_simps)
  have shift: "unat (num_global_qubits ?w - qv_num_qubits (QV rec_env) (qreg ?w)) < 64"
    unfolding nq by (simp add: chunk_world_simps)
  have b0: "\<not> bit (6 :: uint_t) 0" by simp
  have d: "drop_bit 2 (6 :: uint_t) = 1"
    by (simp add: drop_bit_eq_div)
  have b1: "\<not> bit (1 :: uint_t) (Suc 0)" by (simp add: bit_1_iff)
  have row: "\<exists>q \<in> set (op_qubits ?op). qv_num_qubits (QV rec_env) (qreg ?w) \<le> q
          \<and> unat (q - qv_num_qubits (QV rec_env) (qreg ?w)) < 64
          \<and> \<not> bit (qv_chunk_index (QV rec_env) (qreg ?w))
                (unat (q - qv_num_qubits (QV rec_env) (qreg ?w)))"
    unfolding nq ci using b0 by (simp add: gate_op_def)
  have col: "\<exists>q \<in> set (op_qubits ?op). qv_num_qubits (QV rec_env) (qreg ?w) \<le> q
          \<and> unat (q - qv_num_qubits (QV rec_env) (qreg ?w)) < 64
          \<and> \<not> bit (drop_bit (unat (num_global_qubits ?w - qv_num_qubits (QV rec_env) (qreg ?w)))
                     (qv_chunk_index (QV rec_env) (qreg ?w)))
                (unat (q - qv_num_qubits (QV rec_env) (qreg ?w)))"
    unfolding nq ci using b1 d by (simp add: gate_op_def chunk_world_simps)
  show ?thesis
    using apply_gate_skips_chunk [OF name chunks li shift row col] .
qed

text \<open>
  The gate \<^verbatim>\<open>CX\<close> of the gate set, and the gate \<^verbatim>\<open>cx\<close> on a buffer that indexes
  globally, each with the global control qubit 2 on chunk 0, whose row and column indices
  both lack the bit of qubit 2: \<^verbatim>\<open>apply_gate\<close> does not skip them, the buffer is handed
  \<^verbatim>\<open>apply_cnot\<close>.
\<close>

theorem apply_gate_unfiltered_counterexample:
  "apply_gate rec_env (gate_op ''CX'' [2, 0]) (chunk_world 0 False)
     = (Inr (), (chunk_world 0 False)
          \<lparr>qreg := (qreg (chunk_world 0 False))\<lparr>rec_calls := [QV_apply_cnot 2 0]\<rparr>\<rparr>)
   \<and> apply_gate rec_env (gate_op ''cx'' [2, 0]) (chunk_world 0 True)
     = (Inr (), (chunk_world 0 True)
          \<lparr>qreg := (qreg (chunk_world 0 True))\<lparr>rec_calls := [QV_apply_cnot 2 0]\<rparr>\<rparr>)"
proof -
  have a: "inout_qubits rec_env (gate_op ''CX'' [2, 0]) w = ([], [])" for w
    by (simp add: inout_qubits_def gate_op_def)
  have g: "map_of gateset ''CX'' = Some Gates_cx" "map_of gateset ''cx'' = Some Gates_cx"
    by (simp_all add: gateset_def)
  have b: "\<not> chunked rec_env (chunk_world 0 True)"
    by (simp add: chunked_def rec_env_simps chunk_world_simps)
  show ?thesis
    using a b g
    by (simp add: apply_gate_switch_def gate_op_def requires_def on_qreg_apply rec_env_simps
        chunk_world_simps)
qed

subsection \<open>Saving the full state\<close>

lemma apply_save_state_throws:
  "length (op_qubits op) \<noteq> unat (qv_num_qubits (QV E) (qreg w)) \<Longrightarrow>
   apply_save_state E op last_op w =
     (Inl (invalid_argument
        (op_name op @ '' was not applied to all qubits. Only the full state can be saved.'')), w)"
  by (simp add: apply_save_state_def throw_def)

lemma apply_save_state_no_throw:
  "length (op_qubits op) = unat (qv_num_qubits (QV E) (qreg w)) \<Longrightarrow>
   fst (apply_save_state E op last_op w) \<noteq> Inl (invalid_argument msg)"
  by (simp add: apply_save_state_def throw_def requires_def Let_def bind_def move_to_matrix_def
      copy_to_matrix_def save_average_def modify_def split: prod.splits sum.splits)

text \<open>
  C5, as the code has it. \<^verbatim>\<open>apply_save_state\<close> compares the number of qubits the
  operation lists with the number of qubits of the register, and throws
  \<^verbatim>\<open>std::invalid_argument\<close> exactly when they differ. For an operation on distinct
  qubits of the register that is: exactly when its qubits do not cover the whole
  register. When it throws, the message is the one about the full state, and the buffer,
  the result and everything else are as they were before the call.
\<close>

theorem apply_save_state_invalid_target:
  "((\<exists>msg. fst (apply_save_state E op last_op w) = Inl (invalid_argument msg))
      \<longleftrightarrow> length (op_qubits op) \<noteq> unat (qv_num_qubits (QV E) (qreg w)))
   \<and> (distinct (op_qubits op)
        \<and> (\<forall>q \<in> set (op_qubits op). q < qv_num_qubits (QV E) (qreg w)) \<longrightarrow>
        ((\<exists>msg. fst (apply_save_state E op last_op w) = Inl (invalid_argument msg))
           \<longleftrightarrow> set (op_qubits op) \<noteq> {q. q < qv_num_qubits (QV E) (qreg w)}))
   \<and> ((\<exists>msg. fst (apply_save_state E op last_op w) = Inl (invalid_argument msg)) \<longrightarrow>
        apply_save_state E op last_op w =
          (Inl (invalid_argument
             (op_name op @ '' was not applied to all qubits. Only the full state can be saved.'')),
           w))"
proof -
  let ?T = "\<exists>msg. fst (apply_save_state E op last_op w) = Inl (invalid_argument msg)"
  let ?n = "qv_num_qubits (QV E) (qreg w)"
  have a: "?T \<longleftrightarrow> length (op_qubits op) \<noteq> unat ?n"
    using apply_save_state_throws [of op E w last_op] apply_save_state_no_throw [of op E w last_op]
    by (cases "length (op_qubits op) = unat ?n") auto
  have b: "distinct (op_qubits op) \<and> (\<forall>q \<in> set (op_qubits op). q < ?n) \<longrightarrow>
        (?T \<longleftrightarrow> set (op_qubits op) \<noteq> {q. q < ?n})"
    using a covers_iff_length [of "op_qubits op" ?n] by blast
  have c: "?T \<longrightarrow> apply_save_state E op last_op w =
          (Inl (invalid_argument
             (op_name op @ '' was not applied to all qubits. Only the full state can be saved.'')),
           w)"
    using a apply_save_state_throws [of op E w last_op] by blast
  show ?thesis using a b c by blast
qed

text \<open>
  Operation \<^verbatim>\<open>save_state\<close> on qubit 0 alone of the register of two qubits: it throws, and
  nothing has changed.
\<close>

theorem apply_save_state_invalid_target_witness:
  "length (op_qubits ((gate_op ''save_state'' [0])\<lparr>op_type := OpType_save_state\<rparr>))
      \<noteq> unat (qv_num_qubits (QV rec_env) (qreg rec_world))
   \<and> distinct [0 :: uint_t] \<and> (0 :: uint_t) < qv_num_qubits (QV rec_env) (qreg rec_world)
   \<and> set [0 :: uint_t] \<noteq> {q. q < qv_num_qubits (QV rec_env) (qreg rec_world)}
   \<and> apply_save_state rec_env ((gate_op ''save_state'' [0])\<lparr>op_type := OpType_save_state\<rparr>)
        False rec_world
      = (Inl (invalid_argument
           ''save_state was not applied to all qubits. Only the full state can be saved.''),
         rec_world)"
proof -
  let ?op = "(gate_op ''save_state'' [0])\<lparr>op_type := OpType_save_state\<rparr>"
  have n: "qv_num_qubits (QV rec_env) (qreg rec_world) = 2"
    by (simp add: rec_defs)
  have q: "op_qubits ?op = [0]" and nm: "op_name ?op = ''save_state''"
    by (simp_all add: gate_op_def)
  have l: "length (op_qubits ?op) \<noteq> unat (qv_num_qubits (QV rec_env) (qreg rec_world))"
    unfolding n q by simp
  have "(1 :: uint_t) \<in> {q. q < 2}" by simp
  moreover have "(1 :: uint_t) \<notin> set [0]" by simp
  ultimately have s: "set [0 :: uint_t] \<noteq> {q. q < 2}" by blast
  from apply_save_state_invalid_target [of rec_env ?op False rec_world] l
  have "apply_save_state rec_env ?op False rec_world
      = (Inl (invalid_argument
           (op_name ?op @ '' was not applied to all qubits. Only the full state can be saved.'')),
         rec_world)"
    by blast
  then have a: "apply_save_state rec_env ?op False rec_world
      = (Inl (invalid_argument
           ''save_state was not applied to all qubits. Only the full state can be saved.''),
         rec_world)"
    unfolding nm by simp
  have z: "(0 :: uint_t) < 2" by simp
  show ?thesis
    using l s a z unfolding n by simp
qed

text \<open>
  On the register of two qubits: an operation that lists qubit 0 twice does not cover the
  register, and the state is saved without an error; an operation that lists the qubits 0,
  1 and 1 covers the register, and the call throws.
\<close>

theorem apply_save_state_repeated_qubit_counterexample:
  "set [0 :: uint_t, 0] \<noteq> {q. q < qv_num_qubits (QV rec_env) (qreg rec_world)}
   \<and> apply_save_state rec_env
        ((gate_op ''save_state'' [0, 0])
           \<lparr>op_type := OpType_save_state, op_string_params := [''rho'']\<rparr>) False rec_world
      = (Inr (), rec_world\<lparr>result := [(''rho'', Matrix_data (rec_matrix (qreg rec_world)))]\<rparr>)
   \<and> set [0 :: uint_t, 1, 1] = {q. q < qv_num_qubits (QV rec_env) (qreg rec_world)}
   \<and> apply_save_state rec_env
        ((gate_op ''save_state'' [0, 1, 1])
           \<lparr>op_type := OpType_save_state, op_string_params := [''rho'']\<rparr>) False rec_world
      = (Inl (invalid_argument
           ''save_state was not applied to all qubits. Only the full state can be saved.''),
         rec_world)"
proof -
  have n: "qv_num_qubits (QV rec_env) (qreg rec_world) = 2"
    by (simp add: rec_defs)
  have all: "set [0 :: uint_t, 1] = {q. q < 2}"
    using covers_iff_length [of "[0 :: uint_t, 1]" 2] by simp
  have "(1 :: uint_t) \<in> {q. q < 2}" by simp
  moreover have "(1 :: uint_t) \<notin> set [0, 0]" by simp
  ultimately have a: "set [0 :: uint_t, 0] \<noteq> {q. q < 2}" by blast
  have c: "set [0 :: uint_t, 1, 1] = {q. q < 2}"
    using all by simp
  have b: "apply_save_state rec_env
        ((gate_op ''save_state'' [0, 0])
           \<lparr>op_type := OpType_save_state, op_string_params := [''rho'']\<rparr>) False rec_world
      = (Inr (), rec_world\<lparr>result := [(''rho'', Matrix_data (rec_matrix (qreg rec_world)))]\<rparr>)"
    by (simp add: apply_save_state_def gate_op_def requires_def bind_def copy_to_matrix_def
        save_average_def modify_def rec_defs)
  have d: "apply_save_state rec_env
        ((gate_op ''save_state'' [0, 1, 1])
           \<lparr>op_type := OpType_save_state, op_string_params := [''rho'']\<rparr>) False rec_world
      = (Inl (invalid_argument
           ''save_state was not applied to all qubits. Only the full state can be saved.''),
         rec_world)"
    by (simp add: apply_save_state_def gate_op_def throw_def rec_defs)
  show ?thesis
    unfolding n using a b c d by simp
qed

subsection \<open>Operations the dispatcher does not know\<close>

lemma apply_op_conditional_false:
  "\<not> check_conditional (CL E) (creg w) op \<Longrightarrow> apply_op E op final_ops w = (Inr (), w)"
  by (simp add: apply_op_def returns_def)

text \<open>
  C6. The dispatcher is entered with the conditional of the operation already decided
  (spec 4.1: an operation whose predicate is false is a no-op), so the claim is about
  operations whose conditional holds. For such an operation whose kind is none of the
  labels of the switch, \<^verbatim>\<open>apply_op\<close> throws \<^verbatim>\<open>std::invalid_argument\<close> with the
  message \<^verbatim>\<open>DensityMatrix::State::invalid instruction 'name'.\<close>, and the buffer, the
  registers, the result and the random number engine are as they were: no handler ran.
\<close>

theorem apply_op_unsupported:
  assumes "check_conditional (CL E) (creg w) op"
    and "op_type op \<notin> set apply_op_cases"
  shows "apply_op E op final_ops w =
    (Inl (invalid_argument
       (''DensityMatrix::State::invalid instruction '' @ [CHR 0x27] @ op_name op @ [CHR 0x27] @ ''.'')), w)"
  using assms
  by (cases "op_type op")
     (simp_all add: apply_op_def apply_op_cases_def throw_def invalid_instruction_def quote_def)

text \<open>An operation of kind \<^verbatim>\<open>jump\<close> whose conditional holds.\<close>

theorem apply_op_unsupported_witness:
  "check_conditional (CL rec_env) (creg rec_world) ((gate_op ''jump'' [])\<lparr>op_type := OpType_jump\<rparr>)
   \<and> OpType_jump \<notin> set apply_op_cases
   \<and> apply_op rec_env ((gate_op ''jump'' [])\<lparr>op_type := OpType_jump\<rparr>) False rec_world =
       (Inl (invalid_argument (''DensityMatrix::State::invalid instruction '' @ [CHR 0x27] @ ''jump'' @ [CHR 0x27] @ ''.'')), rec_world)"
proof -
  let ?op = "(gate_op ''jump'' [])\<lparr>op_type := OpType_jump\<rparr>"
  have c: "check_conditional (CL rec_env) (creg rec_world) ?op"
    by (simp add: rec_defs)
  have t: "op_type ?op \<notin> set apply_op_cases"
    by (simp add: apply_op_cases_def)
  show ?thesis
    using apply_op_unsupported [OF c t, of False] c t by (simp add: gate_op_def)
qed

subsection \<open>Matrix operations\<close>

text \<open>
  C8. \<^verbatim>\<open>apply_matrix\<close> sends a matrix of exactly one row, vectorized, to
  \<^verbatim>\<open>apply_diagonal_unitary_matrix\<close>, and any other matrix, vectorized, to the buffer's
  \<^verbatim>\<open>apply_unitary_matrix\<close>. The dispatcher hands an operation of kind \<^verbatim>\<open>matrix\<close>
  whose conditional holds to \<^verbatim>\<open>apply_matrix\<close>, with the first matrix of the operation.
\<close>

theorem apply_matrix_routing:
  "(GetRows mat = 1 \<longrightarrow>
      apply_matrix E qubits mat w
        = apply_diagonal_unitary_matrix E qubits (vectorize_matrix (UT E) mat) w)
   \<and> (GetRows mat \<noteq> 1 \<longrightarrow>
      apply_matrix E qubits mat w
        = (Inr (), w\<lparr>qreg := qv_apply (QV E)
             (QV_apply_unitary_matrix qubits (vectorize_matrix (UT E) mat)) (qreg w)\<rparr>))
   \<and> (check_conditional (CL E) (creg w) op \<and> op_type op = OpType_matrix \<and> op_mats op \<noteq> [] \<longrightarrow>
      apply_op E op final_ops w = apply_matrix E (op_qubits op) (op_mats op ! 0) w)"
  by (simp add: apply_matrix_def on_qreg_apply apply_op_def requires_def)

text \<open>
  A matrix of one row and a matrix of two rows on qubit 0: the buffer records a diagonal
  call for the first and a dense one for the second.
\<close>

theorem apply_matrix_routing_witness:
  "apply_op rec_env
      (matrix_op [0] \<lparr>GetRows = 1, GetColumns = 2, entries = [c_one, c_one]\<rparr>) False rec_world
     = (Inr (), rec_world\<lparr>qreg := (qreg rec_world)
          \<lparr>rec_calls := [QV_apply_diagonal_unitary_matrix [0] [c_one, c_one]]\<rparr>\<rparr>)
   \<and> apply_op rec_env
      (matrix_op [0] \<lparr>GetRows = 2, GetColumns = 2, entries = [c_one, c_zero, c_zero, c_one]\<rparr>)
      False rec_world
     = (Inr (), rec_world\<lparr>qreg := (qreg rec_world)
          \<lparr>rec_calls := [QV_apply_unitary_matrix [0] [c_one, c_zero, c_zero, c_one]]\<rparr>\<rparr>)"
proof -
  let ?d = "\<lparr>GetRows = 1, GetColumns = 2, entries = [c_one, c_one]\<rparr>"
  let ?u = "\<lparr>GetRows = 2, GetColumns = 2, entries = [c_one, c_zero, c_zero, c_one]\<rparr>"
  have c: "check_conditional (CL rec_env) (creg rec_world) op" for op
    by (simp add: rec_defs)
  have d: "apply_diagonal_unitary_matrix rec_env [0] [c_one, c_one] rec_world
     = (Inr (), rec_world\<lparr>qreg := (qreg rec_world)
          \<lparr>rec_calls := [QV_apply_diagonal_unitary_matrix [0] [c_one, c_one]]\<rparr>\<rparr>)"
    by (simp add: apply_diagonal_unitary_matrix_def on_qreg_apply rec_defs)
  show ?thesis
    using apply_matrix_routing [of ?d rec_env "[0]" rec_world "matrix_op [0] ?d" False]
      apply_matrix_routing [of ?u rec_env "[0]" rec_world "matrix_op [0] ?u" False]
      c d
    by (simp add: matrix_op_def gate_op_def rec_defs)
qed

subsection \<open>Sampling leaves the buffer alone\<close>

lemma select_bits_all:
  "None \<notin> set (map (\<lambda>val. select_bits (f val) qubits) vals)
     \<longleftrightarrow> (\<forall>val \<in> set vals. \<forall>qubit \<in> set qubits. unat qubit < length (f val))"
  by (auto simp: select_bits_def)

lemma select_bits_the:
  "\<forall>val \<in> set vals. \<forall>qubit \<in> set qubits. unat qubit < length (f val) \<Longrightarrow>
   map the (map (\<lambda>val. select_bits (f val) qubits) vals)
     = map (\<lambda>val. map (\<lambda>qubit. f val ! unat qubit) qubits) vals"
  by (simp add: select_bits_def)

text \<open>
  C9. \<^verbatim>\<open>sample_measure\<close> draws \<^verbatim>\<open>shots\<close> numbers from the random number engine and
  asks the buffer for its samples and for its number of qubits; it makes no other call on
  the buffer. The buffer after the call is the buffer before it, and nothing but the
  random number engine has changed. What is returned, when every measured qubit indexes a
  digit of every sample, is for each of the buffer's samples its digits at the measured
  qubits.
\<close>

theorem sample_measure_keeps_buffer:
  "qreg (snd (sample_measure E qubits shots w)) = qreg w
   \<and> snd (sample_measure E qubits shots w) = w\<lparr>rng := snd (draw_rnds E (unat shots) (rng w))\<rparr>
   \<and> ((\<forall>val \<in> set (qv_sample_measure E (qreg w) (fst (draw_rnds E (unat shots) (rng w)))).
         \<forall>qubit \<in> set qubits.
           unat qubit < length (int2reg (UT E) val 2 (qv_num_qubits (QV E) (qreg w)))) \<longrightarrow>
       fst (sample_measure E qubits shots w) =
         Inr (map (\<lambda>val. map (\<lambda>qubit.
                      int2reg (UT E) val 2 (qv_num_qubits (QV E) (qreg w)) ! unat qubit) qubits)
                (qv_sample_measure E (qreg w) (fst (draw_rnds E (unat shots) (rng w))))))"
proof -
  let ?vals = "qv_sample_measure E (qreg w) (fst (draw_rnds E (unat shots) (rng w)))"
  let ?f = "\<lambda>val. int2reg (UT E) val 2 (qv_num_qubits (QV E) (qreg w))"
  have s: "snd (sample_measure E qubits shots w)
      = w\<lparr>rng := snd (draw_rnds E (unat shots) (rng w))\<rparr>"
    by (simp add: sample_measure_def Let_def requires_def returns_def throw_def)
  have r: "fst (sample_measure E qubits shots w)
      = Inr (map (\<lambda>val. map (\<lambda>qubit. ?f val ! unat qubit) qubits) ?vals)"
    if ok: "\<forall>val \<in> set ?vals. \<forall>qubit \<in> set qubits. unat qubit < length (?f val)"
  proof -
    have "None \<notin> set (map (\<lambda>val. select_bits (?f val) qubits) ?vals)"
      using ok by (simp only: select_bits_all) 
    then show ?thesis
      unfolding sample_measure_def Let_def requires_def select_bits_the [OF ok]
      by (simp add: returns_def)
  qed
  show ?thesis
    using s r by simp
qed

text \<open>
  Two shots on qubit 1 of the recording buffer, where the basis state 2 has probability
  one: both samples are 2, whose digit at qubit 1 is 1.
\<close>

theorem sample_measure_keeps_buffer_witness:
  "sample_measure rec_env [1] 2 rec_world = (Inr [[1], [1]], rec_world\<lparr>rng := 2\<rparr>)
   \<and> qreg (snd (sample_measure rec_env [1] 2 rec_world)) = qreg rec_world"
proof -
  have d: "draw_rnds rec_env 2 0 = ([Finite (1 / 2), Finite (1 / 2)], 2)"
    by (simp add: numeral_2_eq_2 rec_env_simps Let_def)
  have l: "d_less (Finite (1 / 2)) (Finite 1)" "\<not> d_less (Finite (1 / 2)) (Finite 0)"
    by (simp_all add: d_less_def)
  have v: "qv_sample_measure rec_env (qreg rec_world) [Finite (1 / 2), Finite (1 / 2)] = [2, 2]"
    by (simp add: qv_sample_measure_def rec_defs upt_4 l)
  have i: "int2reg (UT rec_env) 2 2 2 = [0, 1]"
    by (simp add: rec_env_simps upt_rec)
  note t = sample_measure_keeps_buffer [of rec_env "[1]" 2 rec_world]
  have s: "snd (sample_measure rec_env [1] 2 rec_world) = rec_world\<lparr>rng := 2\<rparr>"
    using t by (simp add: rec_world_simps d)
  have f: "fst (sample_measure rec_env [1] 2 rec_world) = Inr [[1], [1]]"
    using t by (simp add: rec_defs d v i)
  have "sample_measure rec_env [1] 2 rec_world = (Inr [[1], [1]], rec_world\<lparr>rng := 2\<rparr>)"
    using f s by (metis prod.collapse)
  then show ?thesis
    by simp
qed

subsection \<open>Sizes and indices of the measurement update\<close>

lemma unat_dim:
  assumes "k < 64"
  shows "unat (push_bit k (1 :: uint_t)) = 2 ^ k"
proof -
  have lt: "(2 :: nat) ^ k < 2 ^ LENGTH(64)"
    by (rule power_strict_increasing) (use assms in simp_all)
  have "unat (word_of_nat (2 ^ k) :: uint_t) = 2 ^ k mod 2 ^ LENGTH(64)"
    by (rule unat_of_nat)
  also have "\<dots> = 2 ^ k"
    using lt by (rule mod_less)
  finally show ?thesis
    by simp
qed

lemma replicate_update_projector:
  "m < 2 ^ k \<Longrightarrow> (replicate (2 ^ k) c_zero)[m := v] = diagonal_projector k m v"
  by (rule nth_equalityI) (auto simp: diagonal_projector_def nth_list_update)

lemma store_projector:
  "m < 2 ^ k \<Longrightarrow> store (replicate (2 ^ k) c_zero) m v = Some (diagonal_projector k m v)"
  by (simp add: store_def replicate_update_projector)

lemma nth_concat_rows:
  "i < n * d \<Longrightarrow>
   concat (map (\<lambda>a. map (g a) [0..<d]) [0..<n]) ! i = g (i div d) (i mod d)"
proof (induction n)
  case 0
  then show ?case by simp
next
  case (Suc n)
  have len: "length (concat (map (\<lambda>a. map (g a) [0..<d]) [0..<n])) = n * d"
    by (induction n) simp_all
  show ?case
  proof (cases "i < n * d")
    case True
    with Suc.IH len show ?thesis by (simp add: nth_append)
  next
    case False
    then have ge: "n * d \<le> i" by simp
    from Suc.prems have lt: "i - n * d < d" using ge by simp
    have "i div d = n"
      using ge Suc.prems by (metis div_nat_eqI mult.commute)
    moreover have "i mod d = i - n * d"
      using ge lt by (metis le_add_diff_inverse mod_less mod_mult_self3)
    ultimately show ?thesis
      using False len lt by (simp add: nth_append)
  qed
qed

lemma length_concat_rows:
  "length (concat (map (\<lambda>a. map (g a) [0..<d]) [0..<n])) = n * d"
  by (induction n) simp_all

lemma length_swap_matrix: "length (swap_matrix k f m) = 2 ^ k * 2 ^ k"
  by (simp add: swap_matrix_def length_concat_rows)

lemma nth_swap_matrix:
  "i < 2 ^ k * 2 ^ k \<Longrightarrow>
   swap_matrix k f m ! i = swap_entry f m (i div 2 ^ k) (i mod 2 ^ k)"
  unfolding swap_matrix_def by (rule nth_concat_rows)

lemma pow2_sq_bound:
  assumes "k < 32"
  shows "(2 :: nat) ^ k * 2 ^ k < 2 ^ LENGTH(64)"
proof -
  have "(2 :: nat) ^ k * 2 ^ k = 2 ^ (k + k)" by (simp add: power_add)
  also have "\<dots> < 2 ^ LENGTH(64)"
    by (rule power_strict_increasing) (use assms in simp_all)
  finally show ?thesis .
qed

lemma unat_index:
  assumes k: "k < 32" and d: "unat (dimn :: uint_t) = 2 ^ k"
    and a: "unat (a :: uint_t) < 2 ^ k" and b: "unat (b :: uint_t) < 2 ^ k"
  shows "unat (a * dimn + b) = unat a * 2 ^ k + unat b"
proof -
  have "Suc (unat a) \<le> 2 ^ k" using a by simp
  then have "Suc (unat a) * 2 ^ k \<le> 2 ^ k * 2 ^ k"
    by (rule mult_le_mono1)
  then have s: "unat a * 2 ^ k + unat b < 2 ^ k * 2 ^ k"
    using b by simp
  then have t: "unat a * 2 ^ k + unat b < 2 ^ LENGTH(64)"
    using pow2_sq_bound [OF k] by (rule less_trans)
  then have "unat a * unat (dimn) < 2 ^ LENGTH(64)"
    unfolding d by (rule le_less_trans [rotated]) simp
  then have m: "unat (a * dimn) = unat a * 2 ^ k"
    by (simp only: unat_mult_lem [THEN iffD1] d)
  have "unat (a * dimn) + unat b < 2 ^ LENGTH(64)"
    unfolding m by (rule t)
  then have "unat (a * dimn + b) = unat (a * dimn) + unat b"
    by (simp only: unat_add_lem [THEN iffD1])
  then show ?thesis
    unfolding m .
qed

lemma index_less:
  assumes "a < (d :: nat)" and "b < d"
  shows "a * d + b < d * d"
proof -
  have "Suc a \<le> d" using assms by simp
  then have "Suc a * d \<le> d * d" by (rule mult_le_mono1)
  then show ?thesis using assms by simp
qed

lemma unat_dim_sq:
  assumes k: "k < 32" and d: "unat (dimn :: uint_t) = 2 ^ k"
  shows "unat (dimn * dimn) = 2 ^ k * 2 ^ k"
proof -
  have "unat dimn * unat dimn < 2 ^ LENGTH(64)"
    unfolding d by (rule pow2_sq_bound [OF k])
  then have "unat (dimn * dimn) = unat dimn * unat dimn"
    by (simp only: unat_mult_lem [THEN iffD1])
  then show ?thesis unfolding d .
qed

lemma unat_loop_index:
  assumes "k < 32" and "j < 2 ^ k"
  shows "unat (word_of_nat j :: uint_t) = j"
proof -
  have "(2 :: nat) ^ k < 2 ^ LENGTH(64)"
    by (rule power_strict_increasing) (use assms in simp_all)
  then have "j < 2 ^ LENGTH(64)" using assms(2) by simp
  then have "j mod 2 ^ LENGTH(64) = j" by (rule mod_less)
  then show ?thesis by (simp only: unat_of_nat)
qed

lemma length_diag_fold: "length (fold (diag_step f m d) js perm) = length perm"
  by (induction js arbitrary: perm) (simp_all add: diag_step_def)

lemma nth_diag_fold:
  "i < length perm \<Longrightarrow>
   fold (diag_step f m d) js perm ! i
     = (if \<exists>j \<in> set js. j \<noteq> f \<and> j \<noteq> m \<and> i = j * d + j then c_one else perm ! i)"
proof (induction js arbitrary: perm)
  case Nil
  then show ?case by simp
next
  case (Cons j js)
  have "i < length (diag_step f m d j perm)"
    using Cons.prems by (simp add: diag_step_def)
  from Cons.IH [OF this] show ?case
    using Cons.prems by (auto simp: diag_step_def nth_list_update)
qed

lemma perm_loop:
  assumes k: "k < 32" and d: "unat (dimn :: uint_t) = 2 ^ k" and f: "unat (f :: uint_t) < 2 ^ k" and m: "unat (m :: uint_t) < 2 ^ k"
    and js: "\<forall>j \<in> set js. j < 2 ^ k"
    and len: "length perm = 2 ^ k * 2 ^ k"
  shows "fold
          (\<lambda>j acc. Option.bind acc
             (\<lambda>perm. if j \<noteq> f \<and> j \<noteq> m
                then store perm (unat (j * dimn + j)) c_one else Some perm))
          (map word_of_nat js) (Some perm)
         = Some (fold (diag_step (unat f) (unat m) (2 ^ k)) js perm)"
  using js len
proof (induction js arbitrary: perm)
  case Nil
  then show ?case by simp
next
  case (Cons j js)
  have j: "j < 2 ^ k" using Cons.prems(1) by simp
  have uj: "unat (word_of_nat j :: uint_t) = j"
    using k j by (rule unat_loop_index)
  have ne: "(word_of_nat j \<noteq> f) = (j \<noteq> unat f)" "(word_of_nat j \<noteq> m) = (j \<noteq> unat m)"
    using uj by auto
  have ix: "unat ((word_of_nat j :: uint_t) * dimn + word_of_nat j) = j * 2 ^ k + j"
    using unat_index [OF k d, of "word_of_nat j" "word_of_nat j"] j by (simp only: uj)
  have lt: "j * 2 ^ k + j < length perm"
    using index_less [OF j j] Cons.prems(2) by simp
  have step: "(if word_of_nat j \<noteq> f \<and> word_of_nat j \<noteq> m
                then store perm (unat ((word_of_nat j :: uint_t) * dimn + word_of_nat j)) c_one
                else Some perm)
        = Some (diag_step (unat f) (unat m) (2 ^ k) j perm)"
    using lt by (simp add: ne ix store_def diag_step_def)
  have len': "length (diag_step (unat f) (unat m) (2 ^ k) j perm) = 2 ^ k * 2 ^ k"
    using Cons.prems(2) by (simp add: diag_step_def)
  have js': "\<forall>j \<in> set js. j < 2 ^ k" using Cons.prems(1) by simp
  show ?case
    using Cons.IH [OF js' len'] by (simp add: step)
qed

lemma div_mod_index:
  assumes "b < (d :: nat)"
  shows "(i = a * d + b) = (i div d = a \<and> i mod d = b)"
proof
  assume "i = a * d + b"
  then show "i div d = a \<and> i mod d = b" using assms by simp
next
  assume "i div d = a \<and> i mod d = b"
  then have "a * d + b = i div d * d + i mod d" by simp
  then show "i = a * d + b" by simp
qed

lemma if_merge: "(if A then x else if B then x else y) = (if A \<or> B then x else y)"
  by simp

lemma diag_fold_swap:
  assumes f: "F < (d :: nat)" and m: "M < d" and i: "i < d * d"
  shows "fold (diag_step F M d) [0..<d]
           ((replicate (d * d) c_zero)[F * d + M := c_one, M * d + F := c_one]) ! i
         = swap_entry F M (i div d) (i mod d)"
proof -
  let ?p2 = "(replicate (d * d) c_zero)[F * d + M := c_one, M * d + F := c_one]"
  have dpos: "0 < d" using f by simp
  have a: "i div d < d"
    using i by (simp add: less_mult_imp_div_less)
  have b: "i mod d < d" using dpos by simp
  have l: "fold (diag_step F M d) [0..<d] ?p2 ! i
      = (if \<exists>j \<in> set [0..<d]. j \<noteq> F \<and> j \<noteq> M \<and> i = j * d + j then c_one else ?p2 ! i)"
    by (rule nth_diag_fold) (use i in simp)
  have e: "(\<exists>j \<in> set [0..<d]. j \<noteq> F \<and> j \<noteq> M \<and> i = j * d + j)
      = (i div d = i mod d \<and> i div d \<noteq> F \<and> i div d \<noteq> M)"
  proof
    assume "\<exists>j \<in> set [0..<d]. j \<noteq> F \<and> j \<noteq> M \<and> i = j * d + j"
    then obtain j where j: "j < d" "j \<noteq> F" "j \<noteq> M" "i = j * d + j" by auto
    from j(4) have "i div d = j \<and> i mod d = j"
      using div_mod_index [OF j(1), of i j] by simp
    with j show "i div d = i mod d \<and> i div d \<noteq> F \<and> i div d \<noteq> M" by simp
  next
    assume h: "i div d = i mod d \<and> i div d \<noteq> F \<and> i div d \<noteq> M"
    then have "i = (i div d) * d + i div d"
      using div_mod_index [OF b, of i "i div d"] by simp
    with h a show "\<exists>j \<in> set [0..<d]. j \<noteq> F \<and> j \<noteq> M \<and> i = j * d + j"
      by (intro bexI [of _ "i div d"]) simp_all
  qed
  have e1: "(i = M * d + F) = (i div d = M \<and> i mod d = F)"
    by (rule div_mod_index [OF f])
  have e2: "(i = F * d + M) = (i div d = F \<and> i mod d = M)"
    by (rule div_mod_index [OF m])
  have "?p2 ! i = (if i = M * d + F then c_one
               else if i = F * d + M then c_one else c_zero)"
    using i by (simp add: nth_list_update)
  then have p: "?p2 ! i = (if (i div d = M \<and> i mod d = F) \<or> (i div d = F \<and> i mod d = M)
                    then c_one else c_zero)"
    by (simp only: e1 e2 if_merge)
  show ?thesis
    unfolding l e p swap_entry_def
    by (cases "i div d = i mod d \<and> i div d \<noteq> F \<and> i div d \<noteq> M") auto
qed

lemma measure_reset_update_perm_swap:
  assumes k: "k < 32" and d: "unat (dimn :: uint_t) = 2 ^ k"
    and f: "unat (f :: uint_t) < 2 ^ k" and m: "unat (m :: uint_t) < 2 ^ k"
  shows "measure_reset_update_perm dimn f m = Some (swap_matrix k (unat f) (unat m))"
proof -
  let ?d = "(2 :: nat) ^ k"
  let ?F = "unat f" and ?M = "unat m"
  let ?base = "replicate (?d * ?d) c_zero"
  let ?p1 = "?base[?F * ?d + ?M := c_one]"
  let ?p2 = "?p1[?M * ?d + ?F := c_one]"
  have s1: "store (replicate (unat (dimn * dimn)) c_zero)
              (unat (f * dimn + m)) c_one = Some ?p1"
    using index_less [OF f m]
    by (simp add: unat_dim_sq [OF k d] unat_index [OF k d f m] store_def)
  have s2: "store ?p1 (unat (m * dimn + f)) c_one = Some ?p2"
    using index_less [OF m f]
    by (simp add: unat_index [OF k d m f] store_def)
  have lp: "fold
          (\<lambda>j acc. Option.bind acc
             (\<lambda>perm. if j \<noteq> f \<and> j \<noteq> m
                then store perm (unat (j * dimn + j)) c_one else Some perm))
          (map word_of_nat [0..<?d]) (Some ?p2)
         = Some (fold (diag_step ?F ?M ?d) [0..<?d] ?p2)"
    by (rule perm_loop [OF k d f m]) simp_all
  have res: "measure_reset_update_perm dimn f m
      = Some (fold (diag_step ?F ?M ?d) [0..<?d] ?p2)"
    by (simp add: measure_reset_update_perm_def s1 s2 d lp)
  have "fold (diag_step ?F ?M ?d) [0..<?d] ?p2 = swap_matrix k ?F ?M"
  proof (rule nth_equalityI)
    show "length (fold (diag_step ?F ?M ?d) [0..<?d] ?p2) = length (swap_matrix k ?F ?M)"
      by (simp add: length_diag_fold length_swap_matrix)
  next
    fix i assume "i < length (fold (diag_step ?F ?M ?d) [0..<?d] ?p2)"
    then have i: "i < ?d * ?d" by (simp add: length_diag_fold)
    show "fold (diag_step ?F ?M ?d) [0..<?d] ?p2 ! i = swap_matrix k ?F ?M ! i"
      by (simp only: nth_swap_matrix [OF i] diag_fold_swap [OF f m i])
  qed
  with res show ?thesis by simp
qed

subsection \<open>The measurement update\<close>

lemma bind_unit_right: "bind act returns = (act :: (unit, 'w) action)"
proof
  fix w
  show "bind act returns w = act w"
    by (cases "act w") (auto simp: bind_def returns_def split: sum.splits)
qed

lemma store_projector_dim:
  assumes "unat (dimn :: uint_t) = 2 ^ k" and "m < 2 ^ k"
  shows "store (replicate (unat dimn) c_zero) m v = Some (diagonal_projector k m v)"
  unfolding assms(1) using assms(2) by (rule store_projector)

lemma store_projector_one:
  assumes "m < 2 ^ 1"
  shows "store (replicate 2 c_zero) m v = Some (diagonal_projector 1 m v)"
  using store_projector [OF assms, of v] by simp

lemma measure_reset_update_eq:
  assumes k: "length qubits < 32"
    and m: "unat meas_state < 2 ^ length qubits"
    and f: "unat final_state < 2 ^ length qubits"
  shows "measure_reset_update E qubits final_state meas_state meas_prob =
     bind (apply_diagonal_unitary_matrix E qubits
             (diagonal_projector (length qubits) (unat meas_state)
                (of_double (d_div (Finite 1) (d_sqrt meas_prob)))))
       (\<lambda>u. if final_state = meas_state then returns ()
            else if length qubits = 1 then on_qreg E (QV_apply_x (qubits ! 0))
            else on_qreg E
                   (QV_apply_unitary_matrix qubits
                      (swap_matrix (length qubits) (unat final_state) (unat meas_state))))"
proof (cases "length qubits = 1")
  case True
  have "unat meas_state < 2 ^ 1" using m True by simp
  then have st: "store (replicate 2 c_zero) (unat meas_state)
                   (of_double (d_div (Finite 1) (d_sqrt meas_prob)))
      = Some (diagonal_projector 1 (unat meas_state)
                (of_double (d_div (Finite 1) (d_sqrt meas_prob))))"
    by (rule store_projector_one)
  show ?thesis
    unfolding measure_reset_update_def st using True by (simp cong: if_cong)
next
  case False
  have k64: "length qubits < 64" using k by simp
  have d: "unat (push_bit (length qubits) (1 :: uint_t)) = 2 ^ length qubits"
    using k64 by (rule unat_dim)
  have st: "store (replicate (unat (push_bit (length qubits) (1 :: uint_t))) c_zero)
              (unat meas_state) (of_double (d_div (Finite 1) (d_sqrt meas_prob)))
      = Some (diagonal_projector (length qubits) (unat meas_state)
                (of_double (d_div (Finite 1) (d_sqrt meas_prob))))"
    using d m by (rule store_projector_dim)
  have pm: "measure_reset_update_perm (push_bit (length qubits) 1) final_state meas_state
      = Some (swap_matrix (length qubits) (unat final_state) (unat meas_state))"
    using k d f m by (rule measure_reset_update_perm_swap)
  show ?thesis
    unfolding measure_reset_update_def Let_def st pm using False by (simp cong: if_cong)
qed

lemma measure_reset_update_same:
  assumes k: "length qubits < 64"
    and m: "unat meas_state < 2 ^ length qubits"
  shows "measure_reset_update E qubits meas_state meas_state meas_prob =
     apply_diagonal_unitary_matrix E qubits
       (diagonal_projector (length qubits) (unat meas_state)
          (of_double (d_div (Finite 1) (d_sqrt meas_prob))))"
proof (cases "length qubits = 1")
  case True
  have "unat meas_state < 2 ^ 1" using m True by simp
  then have st: "store (replicate 2 c_zero) (unat meas_state)
                   (of_double (d_div (Finite 1) (d_sqrt meas_prob)))
      = Some (diagonal_projector 1 (unat meas_state)
                (of_double (d_div (Finite 1) (d_sqrt meas_prob))))"
    by (rule store_projector_one)
  show ?thesis
    unfolding measure_reset_update_def st using True by (simp add: bind_unit_right)
next
  case False
  have d: "unat (push_bit (length qubits) (1 :: uint_t)) = 2 ^ length qubits"
    using k by (rule unat_dim)
  have st: "store (replicate (unat (push_bit (length qubits) (1 :: uint_t))) c_zero)
              (unat meas_state) (of_double (d_div (Finite 1) (d_sqrt meas_prob)))
      = Some (diagonal_projector (length qubits) (unat meas_state)
                (of_double (d_div (Finite 1) (d_sqrt meas_prob))))"
    using d m by (rule store_projector_dim)
  show ?thesis
    unfolding measure_reset_update_def Let_def st using False by (simp add: bind_unit_right)
qed

lemma apply_diagonal_unitary_matrix_returns:
  "fst (apply_diagonal_unitary_matrix E qubits diag w) = Inr ()"
  by (simp add: apply_diagonal_unitary_matrix_def Let_def on_qreg_apply)

lemma measure_reset_update_returns:
  assumes k: "length qubits < 32"
    and m: "unat meas_state < 2 ^ length qubits"
    and f: "unat final_state < 2 ^ length qubits"
  shows "fst (measure_reset_update E qubits final_state meas_state meas_prob w) = Inr ()"
proof -
  obtain w' where "apply_diagonal_unitary_matrix E qubits
             (diagonal_projector (length qubits) (unat meas_state)
                (of_double (d_div (Finite 1) (d_sqrt meas_prob)))) w = (Inr (), w')"
    using apply_diagonal_unitary_matrix_returns
    by (metis prod.collapse)
  then show ?thesis
    unfolding measure_reset_update_eq [OF k m f]
    by (simp add: bind_def returns_def on_qreg_apply)
qed

lemma rec_diagonal:
  "apply_diagonal_unitary_matrix rec_env qs diag rec_world
     = (Inr (), rec_world\<lparr>qreg := (qreg rec_world)
          \<lparr>rec_calls := [QV_apply_diagonal_unitary_matrix qs diag]\<rparr>\<rparr>)"
  by (simp add: apply_diagonal_unitary_matrix_def on_qreg_apply rec_defs)

text \<open>
  C3. For a call of \<^verbatim>\<open>measure_reset_update\<close> on \<open>k\<close> qubits (fewer than 32: beyond,
  \<^verbatim>\<open>dim * dim\<close> overflows \<^verbatim>\<open>size_t\<close>) with \<open>meas_state\<close> and \<open>final_state\<close> below
  \<open>2^k\<close>: it applies, through \<^verbatim>\<open>apply_diagonal_unitary_matrix\<close>, the diagonal of size
  \<open>2^k\<close> whose only nonzero entry is \<open>1 / sqrt meas_prob\<close> at \<open>meas_state\<close>; then,
  if \<open>final_state\<close> differs from \<open>meas_state\<close>, for \<open>k = 1\<close> it applies \<^verbatim>\<open>apply_x\<close>
  to the qubit, and otherwise it applies as a dense unitary the vectorized matrix that
  swaps the basis states \<open>final_state\<close> and \<open>meas_state\<close> and is the identity
  elsewhere. If the two states agree nothing follows the diagonal.
\<close>

theorem measure_reset_update_steps:
  assumes "length qubits < 32"
    and "unat meas_state < 2 ^ length qubits"
    and "unat final_state < 2 ^ length qubits"
  shows "measure_reset_update E qubits final_state meas_state meas_prob =
     bind (apply_diagonal_unitary_matrix E qubits
             (diagonal_projector (length qubits) (unat meas_state)
                (of_double (d_div (Finite 1) (d_sqrt meas_prob)))))
       (\<lambda>u. if final_state = meas_state then returns ()
            else if length qubits = 1 then on_qreg E (QV_apply_x (qubits ! 0))
            else on_qreg E
                   (QV_apply_unitary_matrix qubits
                      (swap_matrix (length qubits) (unat final_state) (unat meas_state))))"
  using assms by (rule measure_reset_update_eq)

text \<open>
  Two qubits, measured in state 2 and reset to state 0, with probability 1: the buffer
  records the projector on state 2 and the matrix that swaps states 0 and 2.
\<close>

theorem measure_reset_update_steps_witness:
  "length [0 :: uint_t, 1] < 32 \<and> unat (2 :: uint_t) < 2 ^ length [0 :: uint_t, 1]
   \<and> unat (0 :: uint_t) < 2 ^ length [0 :: uint_t, 1]
   \<and> measure_reset_update rec_env [0, 1] 0 2 (Finite 1) rec_world
     = (Inr (), rec_world\<lparr>qreg := (qreg rec_world)
          \<lparr>rec_calls :=
             [QV_apply_diagonal_unitary_matrix [0, 1] [c_zero, c_zero, c_one, c_zero],
              QV_apply_unitary_matrix [0, 1]
                [c_zero, c_zero, c_one, c_zero,
                 c_zero, c_one, c_zero, c_zero,
                 c_one, c_zero, c_zero, c_zero,
                 c_zero, c_zero, c_zero, c_one]]\<rparr>\<rparr>)"
proof -
  have h: "length [0 :: uint_t, 1] < 32" "unat (2 :: uint_t) < 2 ^ length [0 :: uint_t, 1]"
    "unat (0 :: uint_t) < 2 ^ length [0 :: uint_t, 1]"
    by simp_all
  have p: "diagonal_projector (length [0 :: uint_t, 1]) (unat (2 :: uint_t))
             (of_double (d_div (Finite 1) (d_sqrt (Finite 1))))
      = [c_zero, c_zero, c_one, c_zero]"
    by (simp add: diagonal_projector_def upt_4 c_one_def d_div_def is_inf_def is_zero_def)
  have s: "swap_matrix (length [0 :: uint_t, 1]) (unat (0 :: uint_t)) (unat (2 :: uint_t))
      = [c_zero, c_zero, c_one, c_zero,
         c_zero, c_one, c_zero, c_zero,
         c_one, c_zero, c_zero, c_zero,
         c_zero, c_zero, c_zero, c_one]"
    by (simp add: swap_matrix_def swap_entry_def upt_4)
  have "measure_reset_update rec_env [0, 1] 0 2 (Finite 1) rec_world
     = (Inr (), rec_world\<lparr>qreg := (qreg rec_world)
          \<lparr>rec_calls :=
             [QV_apply_diagonal_unitary_matrix [0, 1] [c_zero, c_zero, c_one, c_zero],
              QV_apply_unitary_matrix [0, 1]
                [c_zero, c_zero, c_one, c_zero,
                 c_zero, c_one, c_zero, c_zero,
                 c_one, c_zero, c_zero, c_zero,
                 c_zero, c_zero, c_zero, c_one]]\<rparr>\<rparr>)"
    unfolding measure_reset_update_steps [OF h, of rec_env "Finite 1"] p s
    by (simp add: bind_def rec_diagonal on_qreg_apply rec_defs)
  with h show ?thesis by simp
qed

text \<open>
  C1, as the code has it. \<^verbatim>\<open>measure_reset_update\<close> does not test \<open>meas_prob\<close>: on
  fewer than 32 qubits and for states below \<open>2^k\<close> it returns normally whatever the
  probability is, the zeros and the non-finite values included, and no exception is
  thrown. The diagonal it passes to \<^verbatim>\<open>apply_diagonal_unitary_matrix\<close> has the entry
  \<open>1 / sqrt meas_prob\<close> as the floating-point arithmetic gives it: \<open>+inf\<close> for
  \<^verbatim>\<open>+0.0\<close> and \<open>-inf\<close> for \<^verbatim>\<open>-0.0\<close>.
\<close>

theorem measure_reset_update_unchecked:
  assumes "length qubits < 32"
    and "unat meas_state < 2 ^ length qubits"
    and "unat final_state < 2 ^ length qubits"
  shows "fst (measure_reset_update E qubits final_state meas_state meas_prob w) = Inr ()
    \<and> measure_reset_update E qubits final_state meas_state (Finite 0) =
        bind (apply_diagonal_unitary_matrix E qubits
                (diagonal_projector (length qubits) (unat meas_state) (PosInf, Finite 0)))
          (\<lambda>u. if final_state = meas_state then returns ()
               else if length qubits = 1 then on_qreg E (QV_apply_x (qubits ! 0))
               else on_qreg E
                      (QV_apply_unitary_matrix qubits
                         (swap_matrix (length qubits) (unat final_state) (unat meas_state))))
    \<and> measure_reset_update E qubits final_state meas_state NegZero =
        bind (apply_diagonal_unitary_matrix E qubits
                (diagonal_projector (length qubits) (unat meas_state) (NegInf, Finite 0)))
          (\<lambda>u. if final_state = meas_state then returns ()
               else if length qubits = 1 then on_qreg E (QV_apply_x (qubits ! 0))
               else on_qreg E
                      (QV_apply_unitary_matrix qubits
                         (swap_matrix (length qubits) (unat final_state) (unat meas_state))))"
proof -
  have "of_double (d_div (Finite 1) (d_sqrt (Finite 0))) = (PosInf, Finite 0)"
    and "of_double (d_div (Finite 1) (d_sqrt NegZero)) = (NegInf, Finite 0)"
    by (simp_all add: of_double_def d_div_sqrt_zero)
  then show ?thesis
    using measure_reset_update_returns [OF assms, of E meas_prob w]
      measure_reset_update_eq [OF assms, of E "Finite 0"]
      measure_reset_update_eq [OF assms, of E NegZero]
    by simp
qed

text \<open>
  Two qubits measured in state 1 with probability \<^verbatim>\<open>-0.0\<close>: the call returns normally,
  and the buffer has been handed a diagonal that holds the negative infinity.
\<close>

theorem measure_reset_update_unchecked_witness:
  "length [0 :: uint_t, 1] < 32 \<and> unat (1 :: uint_t) < 2 ^ length [0 :: uint_t, 1]
   \<and> fst (measure_reset_update rec_env [0, 1] 1 1 NaN rec_world) = Inr ()
   \<and> measure_reset_update rec_env [0, 1] 1 1 NegZero rec_world
     = (Inr (), rec_world\<lparr>qreg := (qreg rec_world)
          \<lparr>rec_calls :=
             [QV_apply_diagonal_unitary_matrix [0, 1]
                [c_zero, (NegInf, Finite 0), c_zero, c_zero]]\<rparr>\<rparr>)"
proof -
  have h: "length [0 :: uint_t, 1] < 32" "unat (1 :: uint_t) < 2 ^ length [0 :: uint_t, 1]"
    by simp_all
  have p: "diagonal_projector (length [0 :: uint_t, 1]) (unat (1 :: uint_t)) (NegInf, Finite 0)
      = [c_zero, (NegInf, Finite 0), c_zero, c_zero]"
    by (simp add: diagonal_projector_def upt_4)
  note u = measure_reset_update_unchecked [OF h(1) h(2) h(2), of rec_env]
  have a: "fst (measure_reset_update rec_env [0, 1] 1 1 NaN rec_world) = Inr ()"
    using u [of NaN rec_world, THEN conjunct1] .
  have b: "measure_reset_update rec_env [0, 1] 1 1 NegZero rec_world
     = (Inr (), rec_world\<lparr>qreg := (qreg rec_world)
          \<lparr>rec_calls :=
             [QV_apply_diagonal_unitary_matrix [0, 1]
                [c_zero, (NegInf, Finite 0), c_zero, c_zero]]\<rparr>\<rparr>)"
    unfolding u [of NaN rec_world, THEN conjunct2, THEN conjunct2] p
    by (simp add: bind_def rec_diagonal returns_def)
  show ?thesis
    using h a b by simp
qed

text \<open>
  One qubit measured in state 0 with probability 0: the call returns normally, and the
  buffer has been handed a diagonal that holds the infinity.
\<close>

theorem measure_reset_update_zero_probability_counterexample:
  "measure_reset_update rec_env [0] 0 0 (Finite 0) rec_world
     = (Inr (), rec_world\<lparr>qreg := (qreg rec_world)
          \<lparr>rec_calls :=
             [QV_apply_diagonal_unitary_matrix [0] [(PosInf, Finite 0), (Finite 0, Finite 0)]]\<rparr>\<rparr>)"
  by (simp add: measure_reset_update_def store_def of_double_def c_zero_def bind_def
      rec_diagonal returns_def numeral_2_eq_2 d_div_sqrt_zero)

text \<open>
  C10. Let \<open>outcome\<close> be the outcome that \<^verbatim>\<open>apply_measure\<close> draws (an index of the
  probabilities of the \<open>k\<close> measured qubits, \<open>k < 64\<close>). \<^verbatim>\<open>apply_measure\<close> calls
  \<^verbatim>\<open>measure_reset_update\<close> with \<open>outcome\<close> as the final state and as the measured
  state, and stores the bits \<^verbatim>\<open>int2reg(outcome, 2, k)\<close> of the same \<open>outcome\<close>. So
  the update is the projector on \<open>outcome\<close> alone, with no flip and no permutation after
  it: the state collapses onto the outcome whose bits are stored.
\<close>

theorem apply_measure_collapses_on_stored_outcome:
  assumes drawn: "rand_int (CL E) (measure_probs E qubits w) (rng w) = (outcome, rng')"
    and inprobs: "unat outcome < length (measure_probs E qubits w)"
    and k: "length qubits < 64"
    and m: "unat outcome < 2 ^ length qubits"
  shows "apply_measure E qubits cmemory cregister w =
      bind (measure_reset_update E qubits outcome outcome
              (measure_probs E qubits w ! unat outcome))
        (\<lambda>u. modify (\<lambda>w. w\<lparr>creg :=
                store_measure (CL E) (int2reg (UT E) outcome 2 (word_of_nat (length qubits)))
                  cmemory cregister (creg w)\<rparr>))
        (w\<lparr>rng := rng'\<rparr>)
    \<and> apply_measure E qubits cmemory cregister w =
      bind (apply_diagonal_unitary_matrix E qubits
              (diagonal_projector (length qubits) (unat outcome)
                 (of_double (d_div (Finite 1)
                    (d_sqrt (measure_probs E qubits w ! unat outcome))))))
        (\<lambda>u. modify (\<lambda>w. w\<lparr>creg :=
                store_measure (CL E) (int2reg (UT E) outcome 2 (word_of_nat (length qubits)))
                  cmemory cregister (creg w)\<rparr>))
        (w\<lparr>rng := rng'\<rparr>)"
proof -
  have s: "sample_measure_with_prob E qubits w
      = (Inr (outcome, measure_probs E qubits w ! unat outcome), w\<lparr>rng := rng'\<rparr>)"
    using drawn inprobs
    by (simp add: sample_measure_with_prob_def Let_def requires_def returns_def)
  have a: "apply_measure E qubits cmemory cregister w =
      bind (measure_reset_update E qubits outcome outcome
              (measure_probs E qubits w ! unat outcome))
        (\<lambda>u. modify (\<lambda>w. w\<lparr>creg :=
                store_measure (CL E) (int2reg (UT E) outcome 2 (word_of_nat (length qubits)))
                  cmemory cregister (creg w)\<rparr>))
        (w\<lparr>rng := rng'\<rparr>)"
    unfolding apply_measure_def by (simp add: bind_def [of "sample_measure_with_prob E qubits"] s)
  show ?thesis
    using a unfolding measure_reset_update_same [OF k m] by simp
qed

text \<open>
  Qubit 1 of the recording buffer, whose probabilities are one half each: outcome 0 is
  drawn, the projector on 0 is applied and the bit 0 is stored.
\<close>

theorem apply_measure_collapses_on_stored_outcome_witness:
  "rand_int (CL rec_env) (measure_probs rec_env [1] rec_world) (rng rec_world) = (0, 1)
   \<and> unat (0 :: uint_t) < length (measure_probs rec_env [1] rec_world)
   \<and> length [1 :: uint_t] < 64 \<and> unat (0 :: uint_t) < 2 ^ length [1 :: uint_t]
   \<and> apply_measure rec_env [1] [0] [0] rec_world
     = (Inr (), rec_world\<lparr>qreg := (qreg rec_world)
          \<lparr>rec_calls :=
             [QV_apply_diagonal_unitary_matrix [1]
                [of_double (d_div (Finite 1) (d_sqrt (Finite (1 / 2)))), c_zero]]\<rparr>,
          creg := (True, [[0]]), rng := 1\<rparr>)"
proof -
  have h: "rand_int (CL rec_env) (measure_probs rec_env [1] rec_world) (rng rec_world) = (0, 1)"
    "unat (0 :: uint_t) < length (measure_probs rec_env [1] rec_world)"
    "length [1 :: uint_t] < 64" "unat (0 :: uint_t) < 2 ^ length [1 :: uint_t]"
    by (simp_all add: measure_probs_def rec_defs)
  have p: "diagonal_projector (length [1 :: uint_t]) (unat (0 :: uint_t)) v = [v, c_zero]" for v
    by (simp add: diagonal_projector_def upt_rec)
  have q: "measure_probs rec_env [1] rec_world ! unat (0 :: uint_t) = Finite (1 / 2)"
    by (simp add: measure_probs_def rec_defs)
  have d: "apply_diagonal_unitary_matrix rec_env qs diag (rec_world\<lparr>rng := n\<rparr>)
     = (Inr (), rec_world\<lparr>qreg := (qreg rec_world)
          \<lparr>rec_calls := [QV_apply_diagonal_unitary_matrix qs diag]\<rparr>, rng := n\<rparr>)" for qs diag n
    by (simp add: apply_diagonal_unitary_matrix_def on_qreg_apply rec_defs)
  have i: "int2reg (UT rec_env) 0 2 (word_of_nat (length [1 :: uint_t])) = [0]"
    by (simp add: rec_defs)
  have e: "apply_measure rec_env [1] [0] [0] rec_world =
      bind (apply_diagonal_unitary_matrix rec_env [1]
              (diagonal_projector (length [1 :: uint_t]) (unat (0 :: uint_t))
                 (of_double (d_div (Finite 1)
                    (d_sqrt (measure_probs rec_env [1] rec_world ! unat (0 :: uint_t)))))))
        (\<lambda>u. modify (\<lambda>w. w\<lparr>creg :=
                store_measure (CL rec_env)
                  (int2reg (UT rec_env) 0 2 (word_of_nat (length [1 :: uint_t])))
                  [0] [0] (creg w)\<rparr>))
        (rec_world\<lparr>rng := 1\<rparr>)"
    by (rule apply_measure_collapses_on_stored_outcome [OF h, THEN conjunct2])
  have "apply_measure rec_env [1] [0] [0] rec_world
     = (Inr (), rec_world\<lparr>qreg := (qreg rec_world)
          \<lparr>rec_calls :=
             [QV_apply_diagonal_unitary_matrix [1]
                [of_double (d_div (Finite 1) (d_sqrt (Finite (1 / 2)))), c_zero]]\<rparr>,
          creg := (True, [[0]]), rng := 1\<rparr>)"
    unfolding e p q i by (simp add: bind_def d modify_def rec_defs)
  with h show ?thesis by simp
qed

subsection \<open>The cases of the reduced density matrix\<close>


















subsection \<open>Digits at positions\<close>

lemma deposit_zero [simp]: "deposit ps 0 = 0"
  by (induction ps) simp_all














subsection \<open>The blocks select the entries of the partial trace\<close>












subsection \<open>Pauli strings\<close>

lemma pauli_sign:
  "(if (n :: nat) mod 2 \<noteq> 0 then of_double (Finite (- 1)) else of_double (Finite 1))
     = of_double (Finite ((- 1) ^ n))"
proof (cases "even n")
  case True
  then show ?thesis by (simp add: even_iff_mod_2_eq_zero)
next
  case False
  then show ?thesis by (simp add: odd_iff_mod_2_eq_one)
qed

lemma gate1_commute:
  assumes "p \<noteq> q"
  shows "gate1 U p (gate1 V q v) = gate1 V q (gate1 U p v)"
proof
  fix i :: nat
  have b: "bit (set_bit q i) p = bit i p" "bit (unset_bit q i) p = bit i p"
    "bit (set_bit p i) q = bit i q" "bit (unset_bit p i) q = bit i q"
    using assms by (auto simp: bit_set_bit_iff bit_unset_bit_iff)
  have c: "set_bit p (set_bit q i) = set_bit q (set_bit p i)"
    "unset_bit p (unset_bit q i) = unset_bit q (unset_bit p i)"
    "set_bit p (unset_bit q i) = unset_bit q (set_bit p i)"
    "unset_bit p (set_bit q i) = set_bit q (unset_bit p i)"
    using assms by (auto intro!: bit_eqI simp: bit_set_bit_iff bit_unset_bit_iff)
  show "gate1 U p (gate1 V q v) i = gate1 V q (gate1 U p v) i"
    unfolding gate1_def b c by (simp add: algebra_simps)
qed

lemma gate1_scale: "gate1 U p (\<lambda>i. k * v i) = (\<lambda>i. k * gate1 U p v i)"
  by (rule ext) (simp add: gate1_def algebra_simps)

lemma gate1_cnj_pauli:
  "gate1 (\<lambda>a b. cnj (pauli_letter c a b)) p v
     = (\<lambda>i. (if c = CHR ''Y'' then - 1 else 1) * gate1 (pauli_letter c) p v i)"
  by (rule ext) (simp add: gate1_def pauli_letter_def algebra_simps)

lemma pauli_positions_gate1:
  "p \<notin> set ps \<Longrightarrow>
   pauli_positions ps cs (gate1 U p v) = gate1 U p (pauli_positions ps cs v)"
proof (induction ps cs v rule: pauli_positions.induct)
  case (1 q ps c cs v)
  then have "p \<noteq> q" and "p \<notin> set ps" by auto
  then show ?case
    using "1.IH" by (simp add: gate1_commute [of q p])
qed simp_all

lemma pauli_positions_scale:
  "pauli_positions ps cs (\<lambda>i. k * v i) = (\<lambda>i. k * pauli_positions ps cs v i)"
  by (induction ps cs v rule: pauli_positions.induct) (simp_all add: gate1_scale)

lemma pauli_positions_append:
  "length ps = length cs \<Longrightarrow>
   pauli_positions (ps @ ps') (cs @ cs') v = pauli_positions ps' cs' (pauli_positions ps cs v)"
  by (induction ps cs arbitrary: v rule: list_induct2) simp_all

lemma doubled_pauli_is_conjugation:
  assumes "length Q = length P" and "\<forall>q \<in> set Q. q < n"
  shows "(\<lambda>i. (- 1) ^ count_list P (CHR ''Y'')
              * pauli_positions (map (\<lambda>p. p + n) Q) P (pauli_positions Q P v) i)
     = fold (\<lambda>(q, c). dm_gate1 n (pauli_letter c) q) (zip Q P) v"
  using assms
proof (induction Q P arbitrary: v rule: list_induct2)
  case Nil
  then show ?case by simp
next
  case (Cons q Q c P)
  let ?s = "(if c = CHR ''Y'' then - 1 else 1) :: complex"
  let ?u = "gate1 (pauli_letter c) q v"
  let ?L = "gate1 (pauli_letter c) (q + n)"
  have notin: "q + n \<notin> set Q"
    using Cons.prems by auto
  have r: "\<forall>q \<in> set Q. q < n"
    using Cons.prems by simp
  have d: "dm_gate1 n (pauli_letter c) q v = (\<lambda>i. ?s * ?L ?u i)"
    unfolding dm_gate1_def by (rule gate1_cnj_pauli)
  have "fold (\<lambda>(q, c). dm_gate1 n (pauli_letter c) q) (zip (q # Q) (c # P)) v
      = fold (\<lambda>(q, c). dm_gate1 n (pauli_letter c) q) (zip Q P) (\<lambda>i. ?s * ?L ?u i)"
    by (simp add: d)
  also have "\<dots> = (\<lambda>i. (- 1) ^ count_list P (CHR ''Y'')
              * pauli_positions (map (\<lambda>p. p + n) Q) P
                  (pauli_positions Q P (\<lambda>i. ?s * ?L ?u i)) i)"
    by (rule Cons.IH [OF r, symmetric])
  also have "pauli_positions Q P (\<lambda>i. ?s * ?L ?u i)
      = (\<lambda>i. ?s * ?L (pauli_positions Q P ?u) i)"
    by (simp only: pauli_positions_scale pauli_positions_gate1 [OF notin])
  also have "pauli_positions (map (\<lambda>p. p + n) Q) P (\<lambda>i. ?s * ?L (pauli_positions Q P ?u) i)
      = (\<lambda>i. ?s * pauli_positions (map (\<lambda>p. p + n) Q) P (?L (pauli_positions Q P ?u)) i)"
    by (rule pauli_positions_scale)
  finally have "fold (\<lambda>(q, c). dm_gate1 n (pauli_letter c) q) (zip (q # Q) (c # P)) v
      = (\<lambda>i. (- 1) ^ count_list P (CHR ''Y'')
            * (?s * pauli_positions (map (\<lambda>p. p + n) Q) P (?L (pauli_positions Q P ?u)) i))" .
  then show ?case
    by (simp add: fun_eq_iff)
qed

lemma unat_superop_qubits_wide:
  assumes "\<forall>q \<in> set qubits. q < (nq :: uint_t)" and "unat nq < 2 ^ 63"
  shows "map unat (superop_qubits nq qubits)
     = map unat qubits @ map (\<lambda>p. p + unat nq) (map unat qubits)"
proof -
  have "unat (q + nq) = unat q + unat nq" if "q \<in> set qubits" for q
  proof -
    have "unat q < unat nq"
      using assms(1) that by (simp add: word_less_nat_alt)
    then have "unat q + unat nq < 2 ^ LENGTH(64)"
      using assms(2) by simp
    then show ?thesis
      by (simp only: unat_add_lem)
  qed
  then show ?thesis
    by (simp add: superop_qubits_def)
qed

lemma pauli_call_meaning:
  assumes len: "length pauli = length qubits"
    and r: "\<forall>q \<in> set qubits. q < (nq :: uint_t)"
    and n: "unat nq < 2 ^ 63"
  shows "qv_meaning (unat nq)
           (QV_apply_pauli (superop_qubits nq qubits) (pauli @ pauli)
              (of_double (Finite ((- 1) ^ count_list pauli (CHR ''Y'')))))
       = Some (fold (\<lambda>(q, c). dm_gate1 (unat nq) (pauli_letter c) q) (zip (map unat qubits) pauli))"
proof -
  let ?Q = "map unat qubits"
  let ?n = "unat nq"
  have l: "length ?Q = length pauli" using len by simp
  have rq: "\<forall>q \<in> set ?Q. q < ?n"
    using r by (auto simp: word_less_nat_alt)
  have c: "Complex ((- 1) ^ k) 0 = (- 1) ^ k" for k
    by (metis Complex_eq_neg_1 complex_of_real_def of_real_minus of_real_1 of_real_power
        Complex_eq_1 uminus_complex.code complex_eq_cancel_iff2 of_real_def scaleR_conv_of_real
        Complex_eq mult_zero_right add.right_neutral of_real_0)
  have "sv_apply_pauli (?Q @ map (\<lambda>p. p + ?n) ?Q) (pauli @ pauli)
          ((- 1) ^ count_list pauli (CHR ''Y'')) v
      = fold (\<lambda>(q, c). dm_gate1 ?n (pauli_letter c) q) (zip ?Q pauli) v" for v
    unfolding sv_apply_pauli_def pauli_positions_append [OF l]
    by (rule doubled_pauli_is_conjugation [OF l rq])
  then have "sv_apply_pauli (?Q @ map (\<lambda>p. p + ?n) ?Q) (pauli @ pauli)
          ((- 1) ^ count_list pauli (CHR ''Y''))
      = fold (\<lambda>(q, c). dm_gate1 ?n (pauli_letter c) q) (zip ?Q pauli)"
    by (rule ext)
  then show ?thesis
    by (simp add: of_double_def unat_superop_qubits_wide [OF r n] c)
qed

lemma Complex_sign: "Complex ((- 1) ^ k) 0 = (- 1) ^ k"
proof -
  have "Complex ((- 1) ^ k) 0 = complex_of_real ((- 1) ^ k)"
    by (simp add: complex_of_real_def)
  then show ?thesis by simp
qed

lemma pauli_call_doubled:
  assumes r: "\<forall>q \<in> set qubits. q < (nq :: uint_t)"
    and n: "unat nq < 2 ^ 63"
  shows "qv_meaning (unat nq)
           (QV_apply_pauli (superop_qubits nq qubits) (pauli @ pauli)
              (of_double (Finite ((- 1) ^ count_list pauli (CHR ''Y'')))))
       = Some (sv_apply_pauli (map unat qubits @ map (\<lambda>p. p + unat nq) (map unat qubits))
                 (pauli @ pauli) ((- 1) ^ count_list pauli (CHR ''Y'')))"
  by (simp add: of_double_def unat_superop_qubits_wide [OF r n] Complex_sign)

text \<open>
  C7. \<^verbatim>\<open>apply_pauli\<close> hands the buffer one call of its \<^verbatim>\<open>apply_pauli\<close>: the string
  \<open>P\<close> twice over, on the qubits of the ket side followed by those of the bra side,
  with the coefficient \<open>(-1)^y\<close>, \<open>y\<close> the number of letters \<open>Y\<close> of \<open>P\<close>.
  For a string of as many letters as there are qubits, on qubits of the register, that
  call means \<open>(-1)^y\<close> times \<open>P\<close> on the ket side and \<open>P\<close> on the bra side of the
  doubled index space, and this is the unitary \<open>P\<close> applied to the density matrix:
  for each letter in turn, the matrix of the letter on its qubit, \<open>\<rho> \<mapsto> U \<rho> U\<^sup>\<dagger>\<close>.
  In particular for the string \<^verbatim>\<open>XY\<close> on the qubits 0 and 1 the call means what
  \<^verbatim>\<open>apply_x\<close> on qubit 0 followed by \<^verbatim>\<open>apply_y\<close> on qubit 1 means.
\<close>

theorem apply_pauli_superoperator:
  "apply_pauli E qubits pauli w =
     (Inr (), w\<lparr>qreg := qv_apply (QV E)
        (QV_apply_pauli (superop_qubits (qv_num_qubits (QV E) (qreg w)) qubits) (pauli @ pauli)
           (of_double (Finite ((- 1) ^ count_list pauli (CHR ''Y''))))) (qreg w)\<rparr>)
   \<and> (length pauli = length qubits
        \<and> (\<forall>q \<in> set qubits. q < qv_num_qubits (QV E) (qreg w))
        \<and> unat (qv_num_qubits (QV E) (qreg w)) < 2 ^ 63 \<longrightarrow>
        qv_meaning (unat (qv_num_qubits (QV E) (qreg w)))
          (QV_apply_pauli (superop_qubits (qv_num_qubits (QV E) (qreg w)) qubits) (pauli @ pauli)
             (of_double (Finite ((- 1) ^ count_list pauli (CHR ''Y'')))))
        = Some (sv_apply_pauli
                  (map unat qubits
                   @ map (\<lambda>p. p + unat (qv_num_qubits (QV E) (qreg w))) (map unat qubits))
                  (pauli @ pauli) ((- 1) ^ count_list pauli (CHR ''Y'')))
        \<and> sv_apply_pauli
             (map unat qubits
              @ map (\<lambda>p. p + unat (qv_num_qubits (QV E) (qreg w))) (map unat qubits))
             (pauli @ pauli) ((- 1) ^ count_list pauli (CHR ''Y''))
          = fold (\<lambda>(q, c). dm_gate1 (unat (qv_num_qubits (QV E) (qreg w))) (pauli_letter c) q)
              (zip (map unat qubits) pauli))
   \<and> (1 < qv_num_qubits (QV E) (qreg w) \<and> unat (qv_num_qubits (QV E) (qreg w)) < 2 ^ 63 \<longrightarrow>
        apply_pauli E [0, 1] ''XY'' w =
          (Inr (), w\<lparr>qreg := qv_apply (QV E)
             (QV_apply_pauli (superop_qubits (qv_num_qubits (QV E) (qreg w)) [0, 1]) ''XYXY''
                (of_double (Finite (- 1)))) (qreg w)\<rparr>)
        \<and> qv_meanings (unat (qv_num_qubits (QV E) (qreg w)))
            [QV_apply_pauli (superop_qubits (qv_num_qubits (QV E) (qreg w)) [0, 1]) ''XYXY''
               (of_double (Finite (- 1)))]
          = Some (\<lambda>v. dm_gate1 (unat (qv_num_qubits (QV E) (qreg w))) (pauli_letter (CHR ''Y'')) 1
                        (dm_gate1 (unat (qv_num_qubits (QV E) (qreg w)))
                           (pauli_letter (CHR ''X'')) 0 v))
        \<and> qv_meanings (unat (qv_num_qubits (QV E) (qreg w))) [QV_apply_x 0, QV_apply_y 1]
          = Some (\<lambda>v. dm_gate1 (unat (qv_num_qubits (QV E) (qreg w))) (pauli_letter (CHR ''Y'')) 1
                        (dm_gate1 (unat (qv_num_qubits (QV E) (qreg w)))
                           (pauli_letter (CHR ''X'')) 0 v)))"
proof (intro conjI impI)
  let ?nq = "qv_num_qubits (QV E) (qreg w)"
  show call: "apply_pauli E qubits pauli w =
     (Inr (), w\<lparr>qreg := qv_apply (QV E)
        (QV_apply_pauli (superop_qubits ?nq qubits) (pauli @ pauli)
           (of_double (Finite ((- 1) ^ count_list pauli (CHR ''Y''))))) (qreg w)\<rparr>)" for qubits pauli
    by (simp only: apply_pauli_def Let_def pauli_sign on_qreg_apply)
  {
    assume h: "length pauli = length qubits \<and> (\<forall>q \<in> set qubits. q < ?nq) \<and> unat ?nq < 2 ^ 63"
    then have len: "length pauli = length qubits" and r: "\<forall>q \<in> set qubits. q < ?nq"
      and n: "unat ?nq < 2 ^ 63"
      by simp_all
    show "qv_meaning (unat ?nq)
          (QV_apply_pauli (superop_qubits ?nq qubits) (pauli @ pauli)
             (of_double (Finite ((- 1) ^ count_list pauli (CHR ''Y'')))))
        = Some (sv_apply_pauli
                  (map unat qubits @ map (\<lambda>p. p + unat ?nq) (map unat qubits))
                  (pauli @ pauli) ((- 1) ^ count_list pauli (CHR ''Y'')))"
      using r n by (rule pauli_call_doubled)
    show "sv_apply_pauli
             (map unat qubits @ map (\<lambda>p. p + unat ?nq) (map unat qubits))
             (pauli @ pauli) ((- 1) ^ count_list pauli (CHR ''Y''))
          = fold (\<lambda>(q, c). dm_gate1 (unat ?nq) (pauli_letter c) q) (zip (map unat qubits) pauli)"
      using pauli_call_meaning [OF len r n] pauli_call_doubled [OF r n, of pauli] by simp
  }
  {
    assume h: "1 < ?nq \<and> unat ?nq < 2 ^ 63"
    then have n: "unat ?nq < 2 ^ 63" by simp
    have r: "\<forall>q \<in> set [0, 1]. q < ?nq"
      using h by (auto simp: word_less_nat_alt)
    show "apply_pauli E [0, 1] ''XY'' w =
          (Inr (), w\<lparr>qreg := qv_apply (QV E)
             (QV_apply_pauli (superop_qubits ?nq [0, 1]) ''XYXY''
                (of_double (Finite (- 1)))) (qreg w)\<rparr>)"
      using call [of "[0, 1]" "''XY''"] by simp
    have "qv_meaning (unat ?nq)
           (QV_apply_pauli (superop_qubits ?nq [0, 1]) (''XY'' @ ''XY'')
              (of_double (Finite ((- 1) ^ count_list ''XY'' (CHR ''Y'')))))
       = Some (fold (\<lambda>(q, c). dm_gate1 (unat ?nq) (pauli_letter c) q)
                 (zip (map unat [0, 1 :: uint_t]) ''XY''))"
      by (rule pauli_call_meaning) (use r n in simp_all)
    then show "qv_meanings (unat ?nq)
            [QV_apply_pauli (superop_qubits ?nq [0, 1]) ''XYXY'' (of_double (Finite (- 1)))]
          = Some (\<lambda>v. dm_gate1 (unat ?nq) (pauli_letter (CHR ''Y'')) 1
                        (dm_gate1 (unat ?nq) (pauli_letter (CHR ''X'')) 0 v))"
      by (simp add: comp_def)
    show "qv_meanings (unat ?nq) [QV_apply_x 0, QV_apply_y 1]
          = Some (\<lambda>v. dm_gate1 (unat ?nq) (pauli_letter (CHR ''Y'')) 1
                        (dm_gate1 (unat ?nq) (pauli_letter (CHR ''X'')) 0 v))"
      by simp
  }
qed

text \<open>
  The register of two qubits: the call that the buffer records for the string \<^verbatim>\<open>XY\<close>,
  its meaning, and what it makes of the density matrix of the basis state \<open>00\<close>, whose
  only entry is at index 0: the density matrix of the basis state \<open>11\<close>, with the entry
  one at index \<open>3 + 4 * 3\<close>.
\<close>

theorem apply_pauli_superoperator_witness:
  "apply_pauli rec_env [0, 1] ''XY'' rec_world =
     (Inr (), rec_world\<lparr>qreg := (qreg rec_world)
        \<lparr>rec_calls := [QV_apply_pauli [0, 1, 2, 3] ''XYXY'' (Finite (- 1), Finite 0)]\<rparr>\<rparr>)
   \<and> qv_meanings 2 [QV_apply_pauli [0, 1, 2, 3] ''XYXY'' (Finite (- 1), Finite 0)]
     = qv_meanings 2 [QV_apply_x 0, QV_apply_y 1]
   \<and> map_option (\<lambda>f. f (basis_state 0) 15)
        (qv_meanings 2 [QV_apply_pauli [0, 1, 2, 3] ''XYXY'' (Finite (- 1), Finite 0)])
     = Some 1"
proof -
  let ?nq = "qv_num_qubits (QV rec_env) (qreg rec_world)"
  have n: "?nq = 2" by (simp add: rec_defs)
  have h: "1 < ?nq \<and> unat ?nq < 2 ^ 63"
    unfolding n by simp
  have s: "superop_qubits 2 [0, 1] = [0, 1, 2, 3]"
    by (simp add: superop_qubits_def)
  have o: "of_double (Finite (- 1)) = (Finite (- 1), Finite 0)"
    by (simp add: of_double_def)
  note t = apply_pauli_superoperator [of rec_env "[0, 1]" "''XY''" rec_world,
      THEN conjunct2, THEN conjunct2, rule_format, OF h, unfolded n s o]
  have a: "apply_pauli rec_env [0, 1] ''XY'' rec_world =
     (Inr (), rec_world\<lparr>qreg := (qreg rec_world)
        \<lparr>rec_calls := [QV_apply_pauli [0, 1, 2, 3] ''XYXY'' (Finite (- 1), Finite 0)]\<rparr>\<rparr>)"
    using t by (simp add: rec_defs)
  have b: "qv_meanings 2 [QV_apply_pauli [0, 1, 2, 3] ''XYXY'' (Finite (- 1), Finite 0)]
     = qv_meanings 2 [QV_apply_x 0, QV_apply_y 1]"
    using t by simp
  have b': "qv_meanings 2 [QV_apply_x 0, QV_apply_y 1]
     = Some (\<lambda>v. dm_gate1 2 (pauli_letter (CHR ''Y'')) 1
                   (dm_gate1 2 (pauli_letter (CHR ''X'')) 0 v))"
    using t by simp
  have e: "dm_gate1 2 (pauli_letter (CHR ''Y'')) 1
             (dm_gate1 2 (pauli_letter (CHR ''X'')) 0 (basis_state 0)) 15 = 1"
    by code_simp
  have c: "map_option (\<lambda>f. f (basis_state 0) 15) (qv_meanings 2 [QV_apply_x 0, QV_apply_y 1])
     = Some 1"
    unfolding b' using e by simp
  show ?thesis
    using a b c by simp
qed

end
